theory Spec2Isabelle
  imports Complex_Main "HOL-Library.Multiset"
begin

section \<open>Telemetry anomaly detection: embedding of crud.py, models.py and main.py\<close>

text \<open>
  The development embeds the z-score detector \<^verbatim>\<open>detect_anomaly_zscore\<close> of crud.py, the
  two tables of models.py and the ingestion endpoint of main.py.

  Modelling decisions:
  \<^item> A Python float is a \<open>pyfloat\<close>, an IEEE binary64 value: a real number, or one
    of the special values \<open>inf\<close>, \<open>-inf\<close>, \<open>nan\<close>. Every arithmetic operation
    rounds its exact result to the nearest double, ties to the even mantissa, and
    overflows to an infinity. Signed zeros are not modelled. The values that enter
    (readings, thresholds) are meant to be doubles; the examples take the double nearest
    to each decimal.
  \<^item> A stored float is read back as it was written; that SQLite keeps \<open>NULL\<close> for a
    \<open>nan\<close> is not modelled.
  \<^item> A table is the list of its rows in insertion order; the database is a record of
    the two tables, passed in and returned by every operation that writes.
  \<^item> A datetime is an integer (an instant on a discrete time line).
  \<^item> An exception is a value \<open>Inl e\<close> of a sum type.
\<close>

subsection \<open>Python floats\<close>

datatype pyfloat = Finite real | PosInf | NegInf | NaN

text \<open>Rounding to the nearest integer, ties to the even neighbour.\<close>

definition round_half_even :: "real \<Rightarrow> int" where
  "round_half_even x =
     (let n = \<lfloor>x\<rfloor>; f = x - of_int n
      in if f < 1 / 2 then n else if 1 / 2 < f then n + 1 else if even n then n else n + 1)"

text \<open>The power of two \<open>2\<^sup>k\<close>, and the number \<open>m \<times> 2\<^sup>k\<close>.\<close>

definition pow2 :: "int \<Rightarrow> real" where
  "pow2 k = (if 0 \<le> k then 2 ^ nat k else 1 / 2 ^ nat (- k))"

definition dbl :: "int \<Rightarrow> int \<Rightarrow> real" where
  "dbl m k = real_of_int m * pow2 k"

text \<open>
  Rounding a real to binary64, to nearest and ties to even. A number in
  \<open>[2\<^sup>e, 2\<^sup>e\<^sup>+\<^sup>1)\<close> is rounded to a multiple of \<open>2\<^sup>e\<^sup>-\<^sup>5\<^sup>2\<close> (53 significant bits); below
  \<open>2\<^sup>-\<^sup>1\<^sup>0\<^sup>2\<^sup>2\<close> the spacing stays \<open>2\<^sup>-\<^sup>1\<^sup>0\<^sup>7\<^sup>4\<close> (subnormal numbers); a result of
  magnitude \<open>2\<^sup>1\<^sup>0\<^sup>2\<^sup>4\<close> or more is an infinity.
\<close>

definition double_round :: "real \<Rightarrow> pyfloat" where
  "double_round x =
     (if x = 0 then Finite 0
      else
        let e = max \<lfloor>log 2 \<bar>x\<bar>\<rfloor> (- 1022);
            q = pow2 (e - 52);
            y = real_of_int (round_half_even (x / q)) * q
        in if pow2 1024 \<le> \<bar>y\<bar> then (if x < 0 then NegInf else PosInf) else Finite y)"

fun pf_neg :: "pyfloat \<Rightarrow> pyfloat" where
  "pf_neg (Finite a) = Finite (- a)"
| "pf_neg PosInf = NegInf"
| "pf_neg NegInf = PosInf"
| "pf_neg NaN = NaN"

fun pf_add :: "pyfloat \<Rightarrow> pyfloat \<Rightarrow> pyfloat" where
  "pf_add (Finite a) (Finite b) = double_round (a + b)"
| "pf_add NaN y = NaN"
| "pf_add x NaN = NaN"
| "pf_add PosInf NegInf = NaN"
| "pf_add NegInf PosInf = NaN"
| "pf_add PosInf y = PosInf"
| "pf_add x PosInf = PosInf"
| "pf_add NegInf y = NegInf"
| "pf_add x NegInf = NegInf"

definition pf_sub :: "pyfloat \<Rightarrow> pyfloat \<Rightarrow> pyfloat" where
  "pf_sub x y = pf_add x (pf_neg y)"

fun pf_abs :: "pyfloat \<Rightarrow> pyfloat" where
  "pf_abs (Finite a) = Finite \<bar>a\<bar>"
| "pf_abs PosInf = PosInf"
| "pf_abs NegInf = PosInf"
| "pf_abs NaN = NaN"

text \<open>The sign of a float that is not nan: \<open>-1\<close>, \<open>0\<close> or \<open>1\<close>.\<close>

fun pf_sgn :: "pyfloat \<Rightarrow> int" where
  "pf_sgn (Finite a) = (if a < 0 then - 1 else if a = 0 then 0 else 1)"
| "pf_sgn PosInf = 1"
| "pf_sgn NegInf = - 1"
| "pf_sgn NaN = 0"

definition pf_inf :: "int \<Rightarrow> pyfloat" where
  "pf_inf s = (if s < 0 then NegInf else if s = 0 then NaN else PosInf)"

fun pf_mul :: "pyfloat \<Rightarrow> pyfloat \<Rightarrow> pyfloat" where
  "pf_mul (Finite a) (Finite b) = double_round (a * b)"
| "pf_mul NaN y = NaN"
| "pf_mul x NaN = NaN"
| "pf_mul x y = pf_inf (pf_sgn x * pf_sgn y)"

text \<open>
  Division as numpy scalars divide: a zero divisor gives an infinity (or nan for
  \<open>0 / 0\<close>) instead of raising; a finite value over an infinity is zero.
\<close>

fun pf_div :: "pyfloat \<Rightarrow> pyfloat \<Rightarrow> pyfloat" where
  "pf_div (Finite a) (Finite b) =
     (if b = 0 then pf_inf (pf_sgn (Finite a)) else double_round (a / b))"
| "pf_div NaN y = NaN"
| "pf_div x NaN = NaN"
| "pf_div (Finite a) y = Finite 0"
| "pf_div x (Finite b) = pf_inf (pf_sgn x * (if b < 0 then - 1 else 1))"
| "pf_div x y = NaN"

fun pf_sqrt :: "pyfloat \<Rightarrow> pyfloat" where
  "pf_sqrt (Finite a) = (if a < 0 then NaN else double_round (sqrt a))"
| "pf_sqrt PosInf = PosInf"
| "pf_sqrt NegInf = NaN"
| "pf_sqrt NaN = NaN"

text \<open>Comparisons: every comparison with nan is false.\<close>

fun pf_gt :: "pyfloat \<Rightarrow> pyfloat \<Rightarrow> bool" where
  "pf_gt (Finite a) (Finite b) = (a > b)"
| "pf_gt NaN y = False"
| "pf_gt x NaN = False"
| "pf_gt PosInf PosInf = False"
| "pf_gt PosInf y = True"
| "pf_gt x PosInf = False"
| "pf_gt NegInf y = False"
| "pf_gt x NegInf = True"

fun pf_eq :: "pyfloat \<Rightarrow> pyfloat \<Rightarrow> bool" where
  "pf_eq NaN y = False"
| "pf_eq x NaN = False"
| "pf_eq x y = (x = y)"

subsection \<open>numpy: mean and population standard deviation\<close>

text \<open>
  numpy adds the elements of a contiguous array by pairwise summation: fewer than eight
  elements are added from left to right; up to 128 elements are added into eight
  running sums, which are then combined as a balanced tree, and the elements left over
  are added one by one; a longer array is split near the middle, at a multiple of eight.
  Each addition rounds.
\<close>

function blocks8 :: "pyfloat list \<Rightarrow> pyfloat list \<Rightarrow> pyfloat list \<times> pyfloat list" where
  "blocks8 r xs =
     (if length xs < 8 then (r, xs)
      else blocks8 (map2 pf_add r (take 8 xs)) (drop 8 xs))"
  by pat_completeness auto
termination
  by (relation "measure (\<lambda>(r, xs). length xs)") auto

declare blocks8.simps [simp del]

definition tree8 :: "pyfloat list \<Rightarrow> pyfloat" where
  "tree8 r =
     pf_add (pf_add (pf_add (r ! 0) (r ! 1)) (pf_add (r ! 2) (r ! 3)))
            (pf_add (pf_add (r ! 4) (r ! 5)) (pf_add (r ! 6) (r ! 7)))"

function pairwise_sum :: "pyfloat list \<Rightarrow> pyfloat" where
  "pairwise_sum a =
     (if length a < 8 then foldl pf_add (Finite 0) a
      else if length a \<le> 128 then
        (case blocks8 (take 8 a) (drop 8 a) of (r, rest) \<Rightarrow> foldl pf_add (tree8 r) rest)
      else
        pf_add (pairwise_sum (take (length a div 2 - length a div 2 mod 8) a))
               (pairwise_sum (drop (length a div 2 - length a div 2 mod 8) a)))"
  by pat_completeness auto
termination
proof (relation "measure length")
  show "wf (measure length)" by simp
next
  fix a :: "pyfloat list"
  assume big: "\<not> length a \<le> 128"
  have "length a div 2 mod 8 < 8" by simp
  moreover have "64 \<le> length a div 2" using big by simp
  moreover have "length a div 2 < length a" using big by simp
  ultimately have "length a div 2 - length a div 2 mod 8 < length a" by linarith
  then show "(take (length a div 2 - length a div 2 mod 8) a, a) \<in> measure length"
    by simp
next
  fix a :: "pyfloat list"
  assume big: "\<not> length a \<le> 128"
  have "length a div 2 mod 8 < 8" by simp
  moreover have "64 \<le> length a div 2" using big by simp
  ultimately have "0 < length a div 2 - length a div 2 mod 8" by linarith
  moreover have "0 < length a" using big by linarith
  ultimately show "(drop (length a div 2 - length a div 2 mod 8) a, a) \<in> measure length"
    by simp
qed

declare pairwise_sum.simps [simp del]

text \<open>
  \<^verbatim>\<open>np.mean(a)\<close> is the sum divided by the number of elements; \<^verbatim>\<open>np.std(a)\<close> is
  \<^verbatim>\<open>sqrt(mean(abs(a - a.mean())**2))\<close>, the population standard deviation. Sum,
  quotient, difference, square and root are each rounded.
\<close>

definition np_sum :: "pyfloat list \<Rightarrow> pyfloat" where
  "np_sum vs = pairwise_sum vs"

definition np_mean :: "pyfloat list \<Rightarrow> pyfloat" where
  "np_mean vs = pf_div (np_sum vs) (Finite (real (length vs)))"

definition np_std :: "pyfloat list \<Rightarrow> pyfloat" where
  "np_std vs =
     (let m = np_mean vs
      in pf_sqrt (np_mean (map (\<lambda>x. pf_mul (pf_abs (pf_sub x m)) (pf_abs (pf_sub x m))) vs)))"

subsection \<open>Formatting a float with two decimals\<close>

definition digit_char :: "nat \<Rightarrow> char" where
  "digit_char d = ''0123456789'' ! d"

fun str_nat :: "nat \<Rightarrow> string" where
  "str_nat n = (if n < 10 then [digit_char n] else str_nat (n div 10) @ [digit_char (n mod 10)])"

declare str_nat.simps [simp del]

text \<open>\<^verbatim>\<open>f"{x:.2f}"\<close>: sign, integer part, a point and exactly two decimals.\<close>

definition format_2f_real :: "real \<Rightarrow> string" where
  "format_2f_real x =
     (let n = nat (round_half_even (\<bar>x\<bar> * 100))
      in (if x < 0 then ''-'' else '''') @ str_nat (n div 100) @ ''.'' @
         [digit_char (n mod 100 div 10), digit_char (n mod 10)])"

fun format_2f :: "pyfloat \<Rightarrow> string" where
  "format_2f (Finite x) = format_2f_real x"
| "format_2f PosInf = ''inf''"
| "format_2f NegInf = ''-inf''"
| "format_2f NaN = ''nan''"

text \<open>
  Reading a decimal numeral back: the digits before the point as a natural number, plus
  the digits after it over the matching power of ten, negated after a minus sign.
\<close>

definition digit_val :: "char \<Rightarrow> nat" where
  "digit_val c = of_char c - 48"

definition read_nat :: "string \<Rightarrow> nat" where
  "read_nat s = foldl (\<lambda>n c. 10 * n + digit_val c) 0 s"

definition read_unsigned :: "string \<Rightarrow> real" where
  "read_unsigned s =
     (let ip = takeWhile (\<lambda>c. c \<noteq> CHR ''.'') s;
          fp = drop 1 (dropWhile (\<lambda>c. c \<noteq> CHR ''.'') s)
      in real (read_nat ip) + real (read_nat fp) / 10 ^ length fp)"

definition read_decimal :: "string \<Rightarrow> real" where
  "read_decimal s =
     (case s of
        [] \<Rightarrow> 0
      | c # cs \<Rightarrow> if c = CHR ''-'' then - read_unsigned cs else read_unsigned s)"

subsection \<open>models.py: the tables and the request schema\<close>

text \<open>Each record's fields carry a prefix, since the three classes share field names.\<close>

record TelemetryData =
  t_id :: int
  t_timestamp :: int
  t_device_id :: string
  t_metric_name :: string
  t_metric_value :: pyfloat
  t_unit :: "string option"

record Anomaly =
  a_id :: int
  a_telemetry_id :: int
  a_device_id :: string
  a_metric_name :: string
  a_metric_value :: pyfloat
  a_timestamp :: int
  a_anomaly_type :: "string option"
  a_threshold_used :: "pyfloat option"

record TelemetryDataCreate =
  c_timestamp :: int
  c_device_id :: string
  c_metric_name :: string
  c_metric_value :: pyfloat
  c_unit :: "string option"

text \<open>The JSON body of a POST request, before validation; the timestamp may be absent.\<close>

record telemetry_payload =
  p_timestamp :: "int option"
  p_device_id :: string
  p_metric_name :: string
  p_metric_value :: pyfloat
  p_unit :: "string option"

datatype error = ValidationError | IntegrityError

text \<open>
  Validation of the body against \<^verbatim>\<open>TelemetryDataCreate\<close>: \<^verbatim>\<open>device_id\<close> and
  \<^verbatim>\<open>metric_name\<close> have \<^verbatim>\<open>min_length=1\<close>; \<^verbatim>\<open>metric_value: float\<close> carries no
  constraint, so every float is accepted; a missing timestamp defaults to the current
  time \<open>now\<close>.
\<close>

definition validate_TelemetryDataCreate ::
    "int \<Rightarrow> telemetry_payload \<Rightarrow> error + TelemetryDataCreate" where
  "validate_TelemetryDataCreate now p =
     (if length (p_device_id p) < 1 then Inl ValidationError
      else if length (p_metric_name p) < 1 then Inl ValidationError
      else Inr \<lparr>c_timestamp = (case p_timestamp p of None \<Rightarrow> now | Some t \<Rightarrow> t),
                c_device_id = p_device_id p,
                c_metric_name = p_metric_name p,
                c_metric_value = p_metric_value p,
                c_unit = p_unit p\<rparr>)"

subsection \<open>The database\<close>

record db =
  telemetry_data :: "TelemetryData list"
  anomalies :: "Anomaly list"

definition empty_db :: db where
  "empty_db = \<lparr>telemetry_data = [], anomalies = []\<rparr>"

text \<open>An integer primary key is assigned on insert: one more than the largest key so far.\<close>

definition next_id :: "int list \<Rightarrow> int" where
  "next_id ids = fold max ids 0 + 1"

subsection \<open>crud.py\<close>

definition create_telemetry_data :: "db \<Rightarrow> TelemetryDataCreate \<Rightarrow> db \<times> TelemetryData" where
  "create_telemetry_data d telemetry =
     (let db_telemetry =
            \<lparr>t_id = next_id (map t_id (telemetry_data d)),
             t_timestamp = c_timestamp telemetry,
             t_device_id = c_device_id telemetry,
             t_metric_name = c_metric_name telemetry,
             t_metric_value = c_metric_value telemetry,
             t_unit = c_unit telemetry\<rparr>
      in (d\<lparr>telemetry_data := telemetry_data d @ [db_telemetry]\<rparr>, db_telemetry))"

text \<open>The keyword arguments of \<^verbatim>\<open>models.Anomaly(**anomaly_data)\<close>.\<close>

record anomaly_data =
  d_telemetry_id :: int
  d_device_id :: string
  d_metric_name :: string
  d_metric_value :: pyfloat
  d_timestamp :: int
  d_anomaly_type :: string
  d_threshold_used :: pyfloat

text \<open>
  \<^verbatim>\<open>telemetry_id\<close> is declared \<^verbatim>\<open>unique=True\<close>: the commit of a second row with the
  same \<^verbatim>\<open>telemetry_id\<close> raises an integrity error and writes nothing.
\<close>

definition create_anomaly :: "db \<Rightarrow> anomaly_data \<Rightarrow> db \<times> (error + Anomaly)" where
  "create_anomaly d ad =
     (if d_telemetry_id ad \<in> set (map a_telemetry_id (anomalies d)) then (d, Inl IntegrityError)
      else
        let db_anomaly =
              \<lparr>a_id = next_id (map a_id (anomalies d)),
               a_telemetry_id = d_telemetry_id ad,
               a_device_id = d_device_id ad,
               a_metric_name = d_metric_name ad,
               a_metric_value = d_metric_value ad,
               a_timestamp = d_timestamp ad,
               a_anomaly_type = Some (d_anomaly_type ad),
               a_threshold_used = Some (d_threshold_used ad)\<rparr>
        in (d\<lparr>anomalies := anomalies d @ [db_anomaly]\<rparr>, Inr db_anomaly))"

text \<open>
  The query of \<^verbatim>\<open>detect_anomaly_zscore\<close>: filter on device, metric and id, order by
  timestamp descending, limit. Rows with equal timestamps keep their table order (SQL
  leaves their order open). \<open>window_size\<close> is a count.
\<close>

definition recent_data :: "db \<Rightarrow> TelemetryData \<Rightarrow> nat \<Rightarrow> TelemetryData list" where
  "recent_data d telemetry_record window_size =
     take window_size
       (sort_key (\<lambda>r. - t_timestamp r)
          (filter (\<lambda>r. t_device_id r = t_device_id telemetry_record \<and>
                        t_metric_name r = t_metric_name telemetry_record \<and>
                        t_id r \<noteq> t_id telemetry_record)
             (telemetry_data d)))"

text \<open>The window: \<^verbatim>\<open>[d.metric_value for d in recent_data]\<close>.\<close>

definition fetch_window :: "db \<Rightarrow> TelemetryData \<Rightarrow> nat \<Rightarrow> pyfloat list" where
  "fetch_window d telemetry_record window_size =
     map t_metric_value (recent_data d telemetry_record window_size)"

definition detect_anomaly_zscore ::
    "db \<Rightarrow> TelemetryData \<Rightarrow> nat \<Rightarrow> pyfloat \<Rightarrow> db \<times> (error + Anomaly option)" where
  "detect_anomaly_zscore d telemetry_record window_size z_score_threshold =
     (let values = fetch_window d telemetry_record window_size
      in if length values < 5 then (d, Inr None)
         else
           let mean = np_mean values;
               std_dev = np_std values
           in if pf_eq std_dev (Finite 0) then (d, Inr None)
              else
                let z_score = pf_abs (pf_div (pf_sub (t_metric_value telemetry_record) mean) std_dev)
                in if pf_gt z_score z_score_threshold then
                     (case create_anomaly d
                             \<lparr>d_telemetry_id = t_id telemetry_record,
                              d_device_id = t_device_id telemetry_record,
                              d_metric_name = t_metric_name telemetry_record,
                              d_metric_value = t_metric_value telemetry_record,
                              d_timestamp = t_timestamp telemetry_record,
                              d_anomaly_type = ''High Z-score ('' @ format_2f z_score @ '')'',
                              d_threshold_used = z_score_threshold\<rparr> of
                        (d', Inl e) \<Rightarrow> (d', Inl e)
                      | (d', Inr a) \<Rightarrow> (d', Inr (Some a)))
                   else (d, Inr None))"

text \<open>The score of line 198, as a function of the database and the reading.\<close>

definition z_score_of :: "db \<Rightarrow> TelemetryData \<Rightarrow> nat \<Rightarrow> pyfloat" where
  "z_score_of d telemetry_record window_size =
     (let values = fetch_window d telemetry_record window_size
      in pf_abs (pf_div (pf_sub (t_metric_value telemetry_record) (np_mean values))
                        (np_std values)))"

subsection \<open>main.py: the ingestion endpoint\<close>

text \<open>
  \<^verbatim>\<open>POST /telemetry/\<close>: the handler stores the validated reading and returns the stored
  row. A body that fails validation never reaches the handler. The handler's
  \<^verbatim>\<open>except\<close> branch turns an exception of the store into a 500 response; inserting
  a reading raises nothing in this model of the store, so the branch has no counterpart.
  The encoding of the response is not modelled.
\<close>

definition main_create_telemetry_data :: "db \<Rightarrow> TelemetryDataCreate \<Rightarrow> db \<times> TelemetryData" where
  "main_create_telemetry_data d telemetry =
     (let (d', db_telemetry) = create_telemetry_data d telemetry in (d', db_telemetry))"

definition post_telemetry :: "int \<Rightarrow> db \<Rightarrow> telemetry_payload \<Rightarrow> db \<times> (error + TelemetryData)" where
  "post_telemetry now d p =
     (case validate_TelemetryDataCreate now p of
        Inl e \<Rightarrow> (d, Inl e)
      | Inr telemetry \<Rightarrow>
          (let (d', db_telemetry) = main_create_telemetry_data d telemetry
           in (d', Inr db_telemetry)))"

subsection \<open>The specification's words\<close>

text \<open>The arithmetic mean and the population standard deviation of a list of reals.\<close>

definition arith_mean :: "real list \<Rightarrow> real" where
  "arith_mean xs = sum_list xs / real (length xs)"

definition pop_std :: "real list \<Rightarrow> real" where
  "pop_std xs = sqrt (sum_list (map (\<lambda>x. (x - arith_mean xs)\<^sup>2) xs) / real (length xs))"

text \<open>
  The Anomaly Scorer of the specification: no verdict (\<open>None\<close>) below five values, no
  verdict on zero deviation, otherwise the score if it exceeds the threshold.
\<close>

definition anomaly_scorer :: "pyfloat \<Rightarrow> pyfloat list \<Rightarrow> pyfloat \<Rightarrow> pyfloat option" where
  "anomaly_scorer new_value window threshold =
     (if length window < 5 then None
      else if pf_eq (np_std window) (Finite 0) then None
      else
        let score = pf_abs (pf_div (pf_sub new_value (np_mean window)) (np_std window))
        in if pf_gt score threshold then Some score else None)"

text \<open>The Anomaly Recorder: one anomaly row copied from the reading.\<close>

definition anomaly_recorder ::
    "db \<Rightarrow> TelemetryData \<Rightarrow> pyfloat \<Rightarrow> pyfloat \<Rightarrow> db \<times> (error + Anomaly)" where
  "anomaly_recorder d reading score threshold =
     create_anomaly d
       \<lparr>d_telemetry_id = t_id reading,
        d_device_id = t_device_id reading,
        d_metric_name = t_metric_name reading,
        d_metric_value = t_metric_value reading,
        d_timestamp = t_timestamp reading,
        d_anomaly_type = ''High Z-score ('' @ format_2f score @ '')'',
        d_threshold_used = threshold\<rparr>"

text \<open>The flow of the specification for one stored reading: window, score, record.\<close>

definition spec_detect ::
    "db \<Rightarrow> TelemetryData \<Rightarrow> nat \<Rightarrow> pyfloat \<Rightarrow> db \<times> (error + Anomaly option)" where
  "spec_detect d reading window_size threshold =
     (case anomaly_scorer (t_metric_value reading) (fetch_window d reading window_size) threshold of
        None \<Rightarrow> (d, Inr None)
      | Some score \<Rightarrow>
          (case anomaly_recorder d reading score threshold of
             (d', Inl e) \<Rightarrow> (d', Inl e)
           | (d', Inr a) \<Rightarrow> (d', Inr (Some a))))"

text \<open>
  The Ingestion Orchestrator of the specification: store the reading, then run the
  detection once on it with the default window size and threshold.
\<close>

definition spec_ingest :: "int \<Rightarrow> db \<Rightarrow> telemetry_payload \<Rightarrow> db \<times> (error + TelemetryData)" where
  "spec_ingest now d p =
     (case validate_TelemetryDataCreate now p of
        Inl e \<Rightarrow> (d, Inl e)
      | Inr telemetry \<Rightarrow>
          (let (d1, reading) = create_telemetry_data d telemetry;
               (d2, verdict) = detect_anomaly_zscore d1 reading 50 (Finite (5 / 2))
           in (d2, case verdict of Inl e \<Rightarrow> Inl e | Inr _ \<Rightarrow> Inr reading)))"

subsection \<open>Reachable databases\<close>

text \<open>
  The states the two stores can be in: the empty database, and every state that a
  POST request or a run of the detector on any reading leads to.
\<close>

inductive reachable :: "db \<Rightarrow> bool" where
  init: "reachable empty_db"
| ingest: "reachable d \<Longrightarrow> reachable (fst (post_telemetry now d p))"
| detect: "reachable d \<Longrightarrow> reachable (fst (detect_anomaly_zscore d r n thr))"

subsection \<open>Example readings\<close>

definition reading_of :: "string \<Rightarrow> string \<Rightarrow> int \<Rightarrow> int \<Rightarrow> real \<Rightarrow> TelemetryData" where
  "reading_of dev met i ts v =
     \<lparr>t_id = i, t_timestamp = ts, t_device_id = dev, t_metric_name = met,
      t_metric_value = Finite v, t_unit = None\<rparr>"

abbreviation temp :: "int \<Rightarrow> real \<Rightarrow> TelemetryData" where
  "temp i v \<equiv> reading_of ''sensor-001'' ''temperature'' i i v"

definition payload_of :: "int \<Rightarrow> pyfloat \<Rightarrow> telemetry_payload" where
  "payload_of ts v =
     \<lparr>p_timestamp = Some ts, p_device_id = ''sensor-001'', p_metric_name = ''temperature'',
      p_metric_value = v, p_unit = None\<rparr>"

text \<open>Scenario A: five stored values 10, then the reading 10.\<close>

definition db_A :: db where
  "db_A = \<lparr>telemetry_data = [temp 1 10, temp 2 10, temp 3 10, temp 4 10, temp 5 10, temp 6 10],
           anomalies = []\<rparr>"

text \<open>Scenario B: the window 10, 11, 9, 10, 10 (most recent first), then the reading 30.\<close>

definition db_B :: db where
  "db_B = \<lparr>telemetry_data = [temp 1 10, temp 2 10, temp 3 9, temp 4 11, temp 5 10, temp 6 30],
           anomalies = []\<rparr>"

text \<open>Scenario B before the reading 30 arrives.\<close>

definition db_B_before :: db where
  "db_B_before = \<lparr>telemetry_data = [temp 1 10, temp 2 10, temp 3 9, temp 4 11, temp 5 10],
                  anomalies = []\<rparr>"

text \<open>Scenario C: three stored values, then the reading 1000.\<close>

definition db_C :: db where
  "db_C = \<lparr>telemetry_data = [temp 1 10, temp 2 11, temp 3 9, temp 4 1000], anomalies = []\<rparr>"

text \<open>Scenario D: the window 100, 102, 98, 101, 99, then the reading 103.\<close>

definition db_D :: db where
  "db_D = \<lparr>telemetry_data = [temp 1 99, temp 2 101, temp 3 98, temp 4 102, temp 5 100, temp 6 103],
           anomalies = []\<rparr>"

text \<open>Scenario E: a window of mean 10 and deviation 2, then the reading 30 (score 10).\<close>

definition db_E :: db where
  "db_E = \<lparr>telemetry_data = [temp 1 12, temp 2 8, temp 3 12, temp 4 8, temp 5 12, temp 6 8, temp 7 30],
           anomalies = []\<rparr>"

definition anomaly_E :: Anomaly where
  "anomaly_E =
     \<lparr>a_id = 1, a_telemetry_id = 7, a_device_id = ''sensor-001'', a_metric_name = ''temperature'',
      a_metric_value = Finite 30, a_timestamp = 7,
      a_anomaly_type = Some ''High Z-score (10.00)'', a_threshold_used = Some (Finite (5 / 2))\<rparr>"

text \<open>The same readings once the reading 30 has been flagged.\<close>

definition db_E_flagged :: db where
  "db_E_flagged = db_E\<lparr>anomalies := [anomaly_E]\<rparr>"

definition anomaly_B :: Anomaly where
  "anomaly_B =
     \<lparr>a_id = 1, a_telemetry_id = 6, a_device_id = ''sensor-001'', a_metric_name = ''temperature'',
      a_metric_value = Finite 30, a_timestamp = 6,
      a_anomaly_type = Some ''High Z-score (31.62)'', a_threshold_used = Some (Finite (5 / 2))\<rparr>"

text \<open>
  Scenario T: six stored values 0.1, then the reading 1.1. The two constants are the
  doubles nearest to 0.1 and to 1.1, as a JSON body delivers them.
\<close>

definition tenth :: real where
  "tenth = dbl 7205759403792794 (- 56)"

definition eleven_tenths :: real where
  "eleven_tenths = dbl 4953959590107546 (- 52)"

definition db_T :: db where
  "db_T = \<lparr>telemetry_data =
             [temp 1 tenth, temp 2 tenth, temp 3 tenth, temp 4 tenth, temp 5 tenth, temp 6 tenth,
              temp 7 eleven_tenths],
           anomalies = []\<rparr>"

definition anomaly_T :: Anomaly where
  "anomaly_T =
     \<lparr>a_id = 1, a_telemetry_id = 7, a_device_id = ''sensor-001'', a_metric_name = ''temperature'',
      a_metric_value = Finite eleven_tenths, a_timestamp = 7,
      a_anomaly_type = Some ''High Z-score (72057594037927936.00)'',
      a_threshold_used = Some (Finite (5 / 2))\<rparr>"

text \<open>
  Scenario R: a window of mean 10 and deviation 3, then the reading 11, whose score is
  a third; and the double nearest to a third, which lies below it.
\<close>

definition db_R :: db where
  "db_R = \<lparr>telemetry_data = [temp 1 13, temp 2 7, temp 3 13, temp 4 7, temp 5 13, temp 6 7, temp 7 11],
           anomalies = []\<rparr>"

definition third_below :: real where
  "third_below = dbl 6004799503160661 (- 54)"

text \<open>
  Scenario S: the window 0.93, 1.07, 0.93, 1.07, 0.93, 1.07 (most recent first), then
  the reading 1.175. The three constants are the doubles nearest to these decimals.
\<close>

definition val_093 :: real where
  "val_093 = dbl 8376695306909123 (- 53)"

definition val_107 :: real where
  "val_107 = dbl 4818851601286431 (- 52)"

definition val_1175 :: real where
  "val_1175 = dbl 5291729562160333 (- 52)"

definition db_S :: db where
  "db_S = \<lparr>telemetry_data =
             [temp 1 val_107, temp 2 val_093, temp 3 val_107, temp 4 val_093, temp 5 val_107,
              temp 6 val_093, temp 7 val_1175],
           anomalies = []\<rparr>"

definition anomaly_S :: Anomaly where
  "anomaly_S =
     \<lparr>a_id = 1, a_telemetry_id = 7, a_device_id = ''sensor-001'', a_metric_name = ''temperature'',
      a_metric_value = Finite val_1175, a_timestamp = 7,
      a_anomaly_type = Some ''High Z-score (2.50)'', a_threshold_used = Some (Finite (5 / 2))\<rparr>"

text \<open>Readings of two devices and two metrics, some with equal timestamps.\<close>

definition db_M :: db where
  "db_M = \<lparr>telemetry_data =
             [reading_of ''sensor-001'' ''temperature'' 1 10 20,
              reading_of ''sensor-002'' ''temperature'' 2 20 21,
              reading_of ''sensor-001'' ''humidity'' 3 30 60,
              reading_of ''sensor-001'' ''temperature'' 4 40 22,
              reading_of ''sensor-001'' ''temperature'' 5 40 23,
              reading_of ''sensor-001'' ''temperature'' 6 5 24,
              reading_of ''sensor-001'' ''temperature'' 7 50 25],
           anomalies = []\<rparr>"

section \<open>Properties\<close>

subsection \<open>Rounding to a double\<close>

lemma pow2_powr: "pow2 k = 2 powr real_of_int k"
proof (cases "0 \<le> k")
  case True
  then obtain n where k: "k = int n" by (metis nonneg_int_cases)
  have "(2::real) powr real n = 2 ^ n" by (rule powr_realpow) simp
  then show ?thesis
    by (simp add: pow2_def k)
next
  case False
  then obtain n where k: "k = - int n" "0 < n" by (metis neg_int_cases not_le)
  have "(2::real) powr real n = 2 ^ n" by (rule powr_realpow) simp
  then show ?thesis
    using k(2) by (simp add: pow2_def k(1) powr_minus_divide)
qed

lemma pow2_pos: "0 < pow2 k"
  by (simp add: pow2_powr)

lemma pow2_add: "pow2 (a + b) = pow2 a * pow2 b"
  by (simp add: pow2_powr powr_add)

lemma pow2_le_iff: "pow2 a \<le> pow2 b \<longleftrightarrow> a \<le> b"
  by (simp add: pow2_powr)

lemma pow2_less_iff: "pow2 a < pow2 b \<longleftrightarrow> a < b"
  by (simp add: pow2_powr)

lemma floor_log2_eq:
  assumes "0 < x" "pow2 e \<le> x" "x < pow2 (e + 1)"
  shows "\<lfloor>log 2 x\<rfloor> = e"
  using assms by (simp add: floor_log_eq_powr_iff pow2_powr)

lemma floor_log2_bounds:
  assumes "0 < x"
  shows "pow2 \<lfloor>log 2 x\<rfloor> \<le> x" "x < pow2 (\<lfloor>log 2 x\<rfloor> + 1)"
  using floor_log_eq_powr_iff [of x 2 "\<lfloor>log 2 x\<rfloor>"] assms by (simp_all add: pow2_powr)

lemma round_half_even_of_int: "round_half_even (real_of_int n) = n"
  by (simp add: round_half_even_def)

lemma round_half_even_nearest:
  "real_of_int m - 1 / 2 < y \<Longrightarrow> y < real_of_int m + 1 / 2 \<Longrightarrow> round_half_even y = m"
proof -
  assume a: "real_of_int m - 1 / 2 < y" "y < real_of_int m + 1 / 2"
  show ?thesis
  proof (cases "real_of_int m \<le> y")
    case True
    with a have "\<lfloor>y\<rfloor> = m" by (intro floor_unique) auto
    with a show ?thesis by (simp add: round_half_even_def)
  next
    case False
    with a have "\<lfloor>y\<rfloor> = m - 1" by (intro floor_unique) auto
    with a False show ?thesis by (simp add: round_half_even_def)
  qed
qed

lemma round_half_even_tie:
  "y = real_of_int k + 1 / 2 \<Longrightarrow> round_half_even y = (if even k then k else k + 1)"
proof -
  assume y: "y = real_of_int k + 1 / 2"
  then have "\<lfloor>y\<rfloor> = k" by (intro floor_unique) auto
  with y show ?thesis by (simp add: round_half_even_def)
qed

lemma double_round_normal:
  assumes "pow2 e \<le> \<bar>x\<bar>" "\<bar>x\<bar> < pow2 (e + 1)" "- 1022 \<le> e"
    and "round_half_even (x / pow2 (e - 52)) = m"
    and "\<bar>real_of_int m * pow2 (e - 52)\<bar> < pow2 1024"
  shows "double_round x = Finite (real_of_int m * pow2 (e - 52))"
proof -
  have pos: "0 < \<bar>x\<bar>" using assms(1) pow2_pos [of e] by linarith
  then have nz: "x \<noteq> 0" by simp
  have "\<lfloor>log 2 \<bar>x\<bar>\<rfloor> = e"
    using pos assms(1,2) by (rule floor_log2_eq)
  then have "max \<lfloor>log 2 \<bar>x\<bar>\<rfloor> (- 1022) = e"
    using assms(3) by simp
  then show ?thesis
    using nz assms(4,5) by (simp add: double_round_def Let_def)
qed

lemma double_round_exact:
  assumes x: "x = real_of_int m * pow2 k"
    and m: "\<bar>m\<bar> < 2 ^ 53"
    and k: "- 1074 \<le> k"
    and fin: "\<bar>x\<bar> < pow2 1024"
  shows "double_round x = Finite x"
proof (cases "x = 0")
  case True
  then show ?thesis by (simp add: double_round_def)
next
  case False
  define e0 where "e0 = \<lfloor>log 2 \<bar>x\<bar>\<rfloor>"
  define e where "e = max e0 (- 1022)"
  have pos: "0 < \<bar>x\<bar>" using False by simp
  have lo: "pow2 e0 \<le> \<bar>x\<bar>"
    unfolding e0_def using pos by (rule floor_log2_bounds)
  have "\<bar>x\<bar> = real_of_int \<bar>m\<bar> * pow2 k"
    using pow2_pos [of k] by (simp add: x abs_mult)
  also have "\<dots> < real_of_int (2 ^ 53) * pow2 k"
    using m pow2_pos [of k] by (intro mult_strict_right_mono) (simp_all del: of_int_power)
  also have "real_of_int (2 ^ 53) = pow2 53"
    by (simp add: pow2_def)
  also have "pow2 53 * pow2 k = pow2 (53 + k)"
    by (simp only: pow2_add)
  finally have "pow2 e0 < pow2 (53 + k)" using lo by linarith
  then have "e0 < 53 + k" by (simp add: pow2_less_iff)
  then have ek: "e - 52 \<le> k" using k by (simp add: e_def)
  define j where "j = nat (k - (e - 52))"
  have kj: "k = (e - 52) + int j" using ek by (simp add: j_def)
  have "pow2 k = pow2 (e - 52) * pow2 (int j)"
    by (subst kj) (rule pow2_add)
  also have "pow2 (int j) = real_of_int (2 ^ j)"
    by (simp add: pow2_def)
  finally have pk: "pow2 k = pow2 (e - 52) * real_of_int (2 ^ j)" .
  have "x / pow2 (e - 52) = real_of_int (m * 2 ^ j)"
    using pow2_pos [of "e - 52"] by (simp add: x pk)
  then have r: "round_half_even (x / pow2 (e - 52)) = m * 2 ^ j"
    by (simp only: round_half_even_of_int)
  have y: "real_of_int (m * 2 ^ j) * pow2 (e - 52) = x"
    by (simp add: x pk)
  show ?thesis
    using False fin r y
    by (simp add: double_round_def Let_def e_def [symmetric] e0_def [symmetric] not_le)
qed

lemma double_round_of_int:
  "\<bar>m\<bar> < 2 ^ 53 \<Longrightarrow> double_round (real_of_int m) = Finite (real_of_int m)"
proof -
  assume m: "\<bar>m\<bar> < 2 ^ 53"
  have "\<bar>real_of_int m\<bar> < real_of_int (2 ^ 53)"
    using m by (simp only: of_int_abs [symmetric] of_int_less_iff)
  also have "real_of_int (2 ^ 53) \<le> pow2 1024"
    by (simp add: pow2_def)
  finally show ?thesis
    using m by (intro double_round_exact [of _ m 0]) (simp_all add: pow2_def)
qed

lemma dbl_pow2_bound:
  assumes "\<bar>m\<bar> < 2 ^ 53" "k \<le> 970"
  shows "\<bar>dbl m k\<bar> < pow2 1024"
proof -
  have "\<bar>dbl m k\<bar> = real_of_int \<bar>m\<bar> * pow2 k"
    using pow2_pos [of k] by (simp add: dbl_def abs_mult)
  also have "\<dots> < real_of_int (2 ^ 53) * pow2 k"
    using assms(1) pow2_pos [of k] by (intro mult_strict_right_mono) (simp_all del: of_int_power)
  also have "real_of_int (2 ^ 53) = pow2 53"
    by (simp add: pow2_def)
  also have "pow2 53 * pow2 k = pow2 (53 + k)"
    by (simp only: pow2_add)
  also have "\<dots> \<le> pow2 1024"
    using assms(2) by (simp add: pow2_le_iff)
  finally show ?thesis .
qed

lemma double_round_dbl_eq:
  "x = dbl m k \<Longrightarrow> \<bar>m\<bar> < 2 ^ 53 \<Longrightarrow> - 1074 \<le> k \<Longrightarrow> k \<le> 970 \<Longrightarrow>
   double_round x = Finite (dbl m k)"
  using double_round_exact [of x m k] dbl_pow2_bound [of m k] by (simp add: dbl_def)

lemma double_round_nearest:
  assumes lo: "pow2 (k + 52) \<le> \<bar>x\<bar>"
    and hi: "\<bar>x\<bar> < pow2 (k + 53)"
    and k: "- 1074 \<le> k" "k \<le> 970"
    and below: "(real_of_int m - 1 / 2) * pow2 k < x"
    and above: "x < (real_of_int m + 1 / 2) * pow2 k"
  shows "double_round x = Finite (dbl m k)"
proof -
  have q: "0 < pow2 k" by (rule pow2_pos)
  have "real_of_int m - 1 / 2 < x / pow2 k" "x / pow2 k < real_of_int m + 1 / 2"
    using below above q by (simp_all add: pos_less_divide_eq pos_divide_less_eq)
  then have r: "round_half_even (x / pow2 k) = m"
    by (rule round_half_even_nearest)
  have "\<bar>real_of_int m * pow2 k - x\<bar> < pow2 k"
    using below above q by (simp add: abs_less_iff algebra_simps) 
  then have "\<bar>real_of_int m * pow2 k\<bar> < pow2 (k + 53) + pow2 k"
    using hi by linarith
  also have "pow2 k \<le> pow2 (k + 53)" by (simp add: pow2_le_iff)
  also have "pow2 (k + 53) + pow2 (k + 53) = pow2 (k + 54)"
    using pow2_add [of "k + 53" 1] by (simp add: pow2_def add.commute)
  also have "pow2 (k + 54) \<le> pow2 1024"
    using k(2) by (simp add: pow2_le_iff)
  finally have fin: "\<bar>real_of_int m * pow2 k\<bar> < pow2 1024" by simp
  have "double_round x = Finite (real_of_int m * pow2 (k + 52 - 52))"
    using lo hi k(1) r fin by (intro double_round_normal) (simp_all add: add.commute)
  then show ?thesis by (simp add: dbl_def)
qed

lemma double_round_tie:
  assumes lo: "pow2 (k + 52) \<le> \<bar>x\<bar>"
    and hi: "\<bar>x\<bar> < pow2 (k + 53)"
    and k: "- 1074 \<le> k" "k \<le> 970"
    and x: "x = (real_of_int j + 1 / 2) * pow2 k"
  shows "double_round x = Finite (dbl (if even j then j else j + 1) k)"
proof -
  let ?m = "if even j then j else j + 1"
  have q: "0 < pow2 k" by (rule pow2_pos)
  have "x / pow2 k = real_of_int j + 1 / 2"
    using q by (simp add: x)
  then have r: "round_half_even (x / pow2 k) = ?m"
    by (rule round_half_even_tie)
  have "\<bar>real_of_int ?m * pow2 k - x\<bar> < pow2 k"
    using q by (simp add: x abs_less_iff algebra_simps)
  then have "\<bar>real_of_int ?m * pow2 k\<bar> < pow2 (k + 53) + pow2 k"
    using hi by linarith
  also have "pow2 k \<le> pow2 (k + 53)" by (simp add: pow2_le_iff)
  also have "pow2 (k + 53) + pow2 (k + 53) = pow2 (k + 54)"
    using pow2_add [of "k + 53" 1] by (simp add: pow2_def add.commute)
  also have "pow2 (k + 54) \<le> pow2 1024"
    using k(2) by (simp add: pow2_le_iff)
  finally have fin: "\<bar>real_of_int ?m * pow2 k\<bar> < pow2 1024" by simp
  have "double_round x = Finite (real_of_int ?m * pow2 (k + 52 - 52))"
    using lo hi k(1) r fin by (intro double_round_normal) (simp_all add: add.commute)
  then show ?thesis by (simp add: dbl_def)
qed

lemma double_round_sqrt_nearest:
  assumes lo: "(pow2 (k + 52))\<^sup>2 \<le> v"
    and hi: "v < (pow2 (k + 53))\<^sup>2"
    and k: "- 1074 \<le> k" "k \<le> 970"
    and m: "1 \<le> m"
    and below: "((real_of_int m - 1 / 2) * pow2 k)\<^sup>2 < v"
    and above: "v < ((real_of_int m + 1 / 2) * pow2 k)\<^sup>2"
  shows "double_round (sqrt v) = Finite (dbl m k)"
proof (rule double_round_nearest)
  have nn: "0 \<le> sqrt v" using lo by (simp add: order_trans [OF zero_le_power2])
  show "pow2 (k + 52) \<le> \<bar>sqrt v\<bar>"
    using real_le_rsqrt [OF lo] nn by simp
  have "sqrt v < pow2 (k + 53)"
    using hi pow2_pos [of "k + 53"] by (intro real_less_lsqrt) simp_all
  then show "\<bar>sqrt v\<bar> < pow2 (k + 53)" using nn by simp
  show "- 1074 \<le> k" "k \<le> 970" by fact+
  show "(real_of_int m - 1 / 2) * pow2 k < sqrt v"
    using below by (rule real_less_rsqrt)
  have "0 \<le> (real_of_int m + 1 / 2) * pow2 k"
    using m pow2_pos [of k] by simp
  then show "sqrt v < (real_of_int m + 1 / 2) * pow2 k"
    using above by (rule real_less_lsqrt)
qed

lemma double_round_numeral [simp]:
  "(numeral n :: int) < 2 ^ 53 \<Longrightarrow> double_round (numeral n) = Finite (numeral n)"
  using double_round_of_int [of "numeral n"] by simp

lemma double_round_neg_numeral [simp]:
  "(numeral n :: int) < 2 ^ 53 \<Longrightarrow> double_round (- numeral n) = Finite (- numeral n)"
  using double_round_of_int [of "- numeral n"] by simp

lemma double_round_0 [simp]: "double_round 0 = Finite 0"
  by (simp add: double_round_def)

lemma double_round_1 [simp]: "double_round 1 = Finite 1"
  using double_round_of_int [of 1] by simp

lemma double_round_neg_1 [simp]: "double_round (- 1) = Finite (- 1)"
  using double_round_of_int [of "- 1"] by simp

lemma abs_dbl: "\<bar>dbl m k\<bar> = dbl \<bar>m\<bar> k"
  using pow2_pos [of k] by (simp add: dbl_def abs_mult)

lemma dbl_eq_0_iff: "dbl m k = 0 \<longleftrightarrow> m = 0"
  using pow2_pos [of k] by (simp add: dbl_def)

lemma dbl_less_0_iff: "dbl m k < 0 \<longleftrightarrow> m < 0"
  using pow2_pos [of k] by (simp add: dbl_def mult_less_0_iff)

lemma sqrt_9: "sqrt 9 = 3"
  using real_sqrt_abs [of 3] by simp

subsection \<open>The rounded operations of the examples\<close>

text \<open>
  Each lemma is one operation of an example, on the doubles it meets there: the exact
  result lies in the stated binade and is nearest to the stated double.
\<close>

lemma step_T_2:
  "pf_add (Finite (dbl 7205759403792794 (- 56))) (Finite (dbl 7205759403792794 (- 56))) =
     Finite (dbl 7205759403792794 (- 55))"
proof -
  have "double_round (dbl 7205759403792794 (- 56) + dbl 7205759403792794 (- 56)) =
     Finite (dbl 7205759403792794 (- 55))"
    by (rule double_round_dbl_eq) (simp_all add: dbl_def pow2_def)
  then show ?thesis
    by (simp add: pf_sub_def dbl_eq_0_iff dbl_def pow2_def)
qed

lemma step_T_3:
  "pf_add (Finite (dbl 7205759403792794 (- 55))) (Finite (dbl 7205759403792794 (- 56))) =
     Finite (dbl 5404319552844596 (- 54))"
proof -
  have "double_round (dbl 7205759403792794 (- 55) + dbl 7205759403792794 (- 56)) =
     Finite (dbl (if even (5404319552844595::int) then 5404319552844595 else 5404319552844595 + 1) (- 54))"
    by (rule double_round_tie) (simp_all add: dbl_def pow2_def)
  then show ?thesis
    by (simp add: pf_sub_def dbl_eq_0_iff dbl_def pow2_def)
qed

lemma step_T_4:
  "pf_add (Finite (dbl 5404319552844596 (- 54))) (Finite (dbl 7205759403792794 (- 56))) =
     Finite (dbl 7205759403792794 (- 54))"
proof -
  have "double_round (dbl 5404319552844596 (- 54) + dbl 7205759403792794 (- 56)) =
     Finite (dbl (if even (7205759403792794::int) then 7205759403792794 else 7205759403792794 + 1) (- 54))"
    by (rule double_round_tie) (simp_all add: dbl_def pow2_def)
  then show ?thesis
    by (simp add: pf_sub_def dbl_eq_0_iff dbl_def pow2_def)
qed

lemma step_T_5:
  "pf_add (Finite (dbl 7205759403792794 (- 54))) (Finite (dbl 7205759403792794 (- 56))) =
     Finite (dbl 4503599627370496 (- 53))"
proof -
  have "double_round (dbl 7205759403792794 (- 54) + dbl 7205759403792794 (- 56)) =
     Finite (dbl 4503599627370496 (- 53))"
    by (rule double_round_nearest) (simp_all add: dbl_def pow2_def)
  then show ?thesis
    by (simp add: pf_sub_def dbl_eq_0_iff dbl_def pow2_def)
qed

lemma step_T_6:
  "pf_add (Finite (dbl 4503599627370496 (- 53))) (Finite (dbl 7205759403792794 (- 56))) =
     Finite (dbl 5404319552844595 (- 53))"
proof -
  have "double_round (dbl 4503599627370496 (- 53) + dbl 7205759403792794 (- 56)) =
     Finite (dbl 5404319552844595 (- 53))"
    by (rule double_round_nearest) (simp_all add: dbl_def pow2_def)
  then show ?thesis
    by (simp add: pf_sub_def dbl_eq_0_iff dbl_def pow2_def)
qed

lemma step_T_7:
  "pf_div (Finite (dbl 5404319552844595 (- 53))) (Finite 6) =
     Finite (dbl 7205759403792793 (- 56))"
proof -
  have "double_round (dbl 5404319552844595 (- 53) / 6) = Finite (dbl 7205759403792793 (- 56))"
    by (rule double_round_nearest) (simp_all add: dbl_def pow2_def)
  then show ?thesis
    by (simp add: pf_sub_def dbl_eq_0_iff dbl_def pow2_def)
qed

lemma step_T_8:
  "pf_sub (Finite (dbl 7205759403792794 (- 56))) (Finite (dbl 7205759403792793 (- 56))) =
     Finite (dbl 4503599627370496 (- 108))"
proof -
  have "double_round (dbl 7205759403792794 (- 56) - dbl 7205759403792793 (- 56)) =
     Finite (dbl 4503599627370496 (- 108))"
    by (rule double_round_dbl_eq) (simp_all add: dbl_def pow2_def)
  then show ?thesis
    by (simp add: pf_sub_def dbl_eq_0_iff dbl_def pow2_def)
qed

lemma step_T_9:
  "pf_mul (Finite (dbl 4503599627370496 (- 108))) (Finite (dbl 4503599627370496 (- 108))) =
     Finite (dbl 4503599627370496 (- 164))"
proof -
  have "double_round (dbl 4503599627370496 (- 108) * dbl 4503599627370496 (- 108)) =
     Finite (dbl 4503599627370496 (- 164))"
    by (rule double_round_dbl_eq) (simp_all add: dbl_def pow2_def)
  then show ?thesis
    by (simp add: pf_sub_def dbl_eq_0_iff dbl_def pow2_def)
qed

lemma step_T_11:
  "pf_add (Finite (dbl 4503599627370496 (- 164))) (Finite (dbl 4503599627370496 (- 164))) =
     Finite (dbl 4503599627370496 (- 163))"
proof -
  have "double_round (dbl 4503599627370496 (- 164) + dbl 4503599627370496 (- 164)) =
     Finite (dbl 4503599627370496 (- 163))"
    by (rule double_round_dbl_eq) (simp_all add: dbl_def pow2_def)
  then show ?thesis
    by (simp add: pf_sub_def dbl_eq_0_iff dbl_def pow2_def)
qed

lemma step_T_12:
  "pf_add (Finite (dbl 4503599627370496 (- 163))) (Finite (dbl 4503599627370496 (- 164))) =
     Finite (dbl 6755399441055744 (- 163))"
proof -
  have "double_round (dbl 4503599627370496 (- 163) + dbl 4503599627370496 (- 164)) =
     Finite (dbl 6755399441055744 (- 163))"
    by (rule double_round_dbl_eq) (simp_all add: dbl_def pow2_def)
  then show ?thesis
    by (simp add: pf_sub_def dbl_eq_0_iff dbl_def pow2_def)
qed

lemma step_T_13:
  "pf_add (Finite (dbl 6755399441055744 (- 163))) (Finite (dbl 4503599627370496 (- 164))) =
     Finite (dbl 4503599627370496 (- 162))"
proof -
  have "double_round (dbl 6755399441055744 (- 163) + dbl 4503599627370496 (- 164)) =
     Finite (dbl 4503599627370496 (- 162))"
    by (rule double_round_dbl_eq) (simp_all add: dbl_def pow2_def)
  then show ?thesis
    by (simp add: pf_sub_def dbl_eq_0_iff dbl_def pow2_def)
qed

lemma step_T_14:
  "pf_add (Finite (dbl 4503599627370496 (- 162))) (Finite (dbl 4503599627370496 (- 164))) =
     Finite (dbl 5629499534213120 (- 162))"
proof -
  have "double_round (dbl 4503599627370496 (- 162) + dbl 4503599627370496 (- 164)) =
     Finite (dbl 5629499534213120 (- 162))"
    by (rule double_round_dbl_eq) (simp_all add: dbl_def pow2_def)
  then show ?thesis
    by (simp add: pf_sub_def dbl_eq_0_iff dbl_def pow2_def)
qed

lemma step_T_15:
  "pf_add (Finite (dbl 5629499534213120 (- 162))) (Finite (dbl 4503599627370496 (- 164))) =
     Finite (dbl 6755399441055744 (- 162))"
proof -
  have "double_round (dbl 5629499534213120 (- 162) + dbl 4503599627370496 (- 164)) =
     Finite (dbl 6755399441055744 (- 162))"
    by (rule double_round_dbl_eq) (simp_all add: dbl_def pow2_def)
  then show ?thesis
    by (simp add: pf_sub_def dbl_eq_0_iff dbl_def pow2_def)
qed

lemma step_T_16:
  "pf_div (Finite (dbl 6755399441055744 (- 162))) (Finite 6) =
     Finite (dbl 4503599627370496 (- 164))"
proof -
  have "double_round (dbl 6755399441055744 (- 162) / 6) = Finite (dbl 4503599627370496 (- 164))"
    by (rule double_round_dbl_eq) (simp_all add: dbl_def pow2_def)
  then show ?thesis
    by (simp add: pf_sub_def dbl_eq_0_iff dbl_def pow2_def)
qed

lemma step_T_17:
  "pf_sqrt (Finite (dbl 4503599627370496 (- 164))) =
     Finite (dbl 4503599627370496 (- 108))"
proof -
  have "(dbl 4503599627370496 (- 108))\<^sup>2 = dbl 4503599627370496 (- 164)" "0 \<le> dbl 4503599627370496 (- 108)"
    by (simp_all add: dbl_def pow2_def power2_eq_square)
  then have "sqrt (dbl 4503599627370496 (- 164)) = dbl 4503599627370496 (- 108)"
    by (intro real_sqrt_unique)
  moreover have "double_round (dbl 4503599627370496 (- 108)) =
     Finite (dbl 4503599627370496 (- 108))"
    by (rule double_round_dbl_eq) (simp_all add: dbl_def pow2_def)
  ultimately show ?thesis
    by (simp add: dbl_less_0_iff)
qed

lemma step_T_18:
  "pf_sub (Finite (dbl 4953959590107546 (- 52))) (Finite (dbl 7205759403792793 (- 56))) =
     Finite 1"
proof -
  have "double_round (dbl 4953959590107546 (- 52) - dbl 7205759403792793 (- 56)) =
     Finite (dbl 4503599627370496 (- 52))"
    by (rule double_round_nearest) (simp_all add: dbl_def pow2_def)
  then show ?thesis
    by (simp add: pf_sub_def dbl_eq_0_iff dbl_def pow2_def)
qed

lemma step_T_19:
  "pf_div (Finite 1) (Finite (dbl 4503599627370496 (- 108))) =
     Finite (dbl 4503599627370496 4)"
proof -
  have "double_round (1 / dbl 4503599627370496 (- 108)) = Finite (dbl 4503599627370496 4)"
    by (rule double_round_dbl_eq) (simp_all add: dbl_def pow2_def)
  then show ?thesis
    by (simp add: pf_sub_def dbl_eq_0_iff dbl_def pow2_def)
qed

lemma step_B_16:
  "pf_div (Finite 2) (Finite 5) = Finite (dbl 7205759403792794 (- 54))"
proof -
  have "double_round (2 / 5) = Finite (dbl 7205759403792794 (- 54))"
    by (rule double_round_nearest) (simp_all add: dbl_def pow2_def)
  then show ?thesis
    by (simp add: pf_sub_def dbl_eq_0_iff dbl_def pow2_def)
qed

lemma step_B_17:
  "pf_sqrt (Finite (dbl 7205759403792794 (- 54))) =
     Finite (dbl 5696652996790543 (- 53))"
proof -
  have "double_round (sqrt (dbl 7205759403792794 (- 54))) = Finite (dbl 5696652996790543 (- 53))"
    by (rule double_round_sqrt_nearest)
       (simp_all add: dbl_def pow2_def power2_eq_square)
  then show ?thesis
    by (simp add: dbl_less_0_iff)
qed

lemma step_B_19:
  "pf_div (Finite 20) (Finite (dbl 5696652996790543 (- 53))) =
     Finite (dbl 8901020307485223 (- 48))"
proof -
  have "double_round (20 / dbl 5696652996790543 (- 53)) = Finite (dbl 8901020307485223 (- 48))"
    by (rule double_round_nearest) (simp_all add: dbl_def pow2_def)
  then show ?thesis
    by (simp add: pf_sub_def dbl_eq_0_iff dbl_def pow2_def)
qed

lemma step_D_21:
  "pf_sqrt (Finite 2) = Finite (dbl 6369051672525773 (- 52))"
proof -
  have "double_round (sqrt (2)) = Finite (dbl 6369051672525773 (- 52))"
    by (rule double_round_sqrt_nearest)
       (simp_all add: dbl_def pow2_def power2_eq_square)
  then show ?thesis
    by (simp add: dbl_less_0_iff)
qed

lemma step_D_23:
  "pf_div (Finite 3) (Finite (dbl 6369051672525773 (- 52))) =
     Finite (dbl 4776788754394329 (- 51))"
proof -
  have "double_round (3 / dbl 6369051672525773 (- 52)) = Finite (dbl 4776788754394329 (- 51))"
    by (rule double_round_nearest) (simp_all add: dbl_def pow2_def)
  then show ?thesis
    by (simp add: pf_sub_def dbl_eq_0_iff dbl_def pow2_def)
qed

lemma step_R_20:
  "pf_div (Finite 1) (Finite 3) = Finite (dbl 6004799503160661 (- 54))"
proof -
  have "double_round (1 / 3) = Finite (dbl 6004799503160661 (- 54))"
    by (rule double_round_nearest) (simp_all add: dbl_def pow2_def)
  then show ?thesis
    by (simp add: pf_sub_def dbl_eq_0_iff dbl_def pow2_def)
qed

lemma step_S_2:
  "pf_add (Finite (dbl 8376695306909123 (- 53))) (Finite (dbl 4818851601286431 (- 52))) =
     Finite 2"
proof -
  have "double_round (dbl 8376695306909123 (- 53) + dbl 4818851601286431 (- 52)) =
     Finite (dbl 4503599627370496 (- 51))"
    by (rule double_round_nearest) (simp_all add: dbl_def pow2_def)
  then show ?thesis
    by (simp add: pf_sub_def dbl_eq_0_iff dbl_def pow2_def)
qed

lemma step_S_3:
  "pf_add (Finite 2) (Finite (dbl 8376695306909123 (- 53))) =
     Finite (dbl 6597773454097777 (- 51))"
proof -
  have "double_round (2 + dbl 8376695306909123 (- 53)) = Finite (dbl 6597773454097777 (- 51))"
    by (rule double_round_nearest) (simp_all add: dbl_def pow2_def)
  then show ?thesis
    by (simp add: pf_sub_def dbl_eq_0_iff dbl_def pow2_def)
qed

lemma step_S_4:
  "pf_add (Finite (dbl 6597773454097777 (- 51))) (Finite (dbl 4818851601286431 (- 52))) =
     Finite 4"
proof -
  have "double_round (dbl 6597773454097777 (- 51) + dbl 4818851601286431 (- 52)) =
     Finite (dbl 4503599627370496 (- 50))"
    by (rule double_round_nearest) (simp_all add: dbl_def pow2_def)
  then show ?thesis
    by (simp add: pf_sub_def dbl_eq_0_iff dbl_def pow2_def)
qed

lemma step_S_5:
  "pf_add (Finite 4) (Finite (dbl 8376695306909123 (- 53))) =
     Finite (dbl 5550686540734136 (- 50))"
proof -
  have "double_round (4 + dbl 8376695306909123 (- 53)) = Finite (dbl 5550686540734136 (- 50))"
    by (rule double_round_nearest) (simp_all add: dbl_def pow2_def)
  then show ?thesis
    by (simp add: pf_sub_def dbl_eq_0_iff dbl_def pow2_def)
qed

lemma step_S_6:
  "pf_add (Finite (dbl 5550686540734136 (- 50))) (Finite (dbl 4818851601286431 (- 52))) =
     Finite 6"
proof -
  have "double_round (dbl 5550686540734136 (- 50) + dbl 4818851601286431 (- 52)) =
     Finite (dbl 6755399441055744 (- 50))"
    by (rule double_round_nearest) (simp_all add: dbl_def pow2_def)
  then show ?thesis
    by (simp add: pf_sub_def dbl_eq_0_iff dbl_def pow2_def)
qed

lemma step_S_8:
  "pf_sub (Finite (dbl 8376695306909123 (- 53))) (Finite 1) =
     Finite (dbl (- 5044031582654952) (- 56))"
proof -
  have "double_round (dbl 8376695306909123 (- 53) - 1) = Finite (dbl (- 5044031582654952) (- 56))"
    by (rule double_round_dbl_eq) (simp_all add: dbl_def pow2_def)
  then show ?thesis
    by (simp add: pf_sub_def dbl_eq_0_iff dbl_def pow2_def)
qed

lemma step_S_9:
  "pf_mul (Finite (dbl 5044031582654952 (- 56))) (Finite (dbl 5044031582654952 (- 56))) =
     Finite (dbl 5649315372573542 (- 60))"
proof -
  have "double_round (dbl 5044031582654952 (- 56) * dbl 5044031582654952 (- 56)) =
     Finite (dbl 5649315372573542 (- 60))"
    by (rule double_round_nearest) (simp_all add: dbl_def pow2_def)
  then show ?thesis
    by (simp add: pf_sub_def dbl_eq_0_iff dbl_def pow2_def)
qed

lemma step_S_10:
  "pf_sub (Finite (dbl 4818851601286431 (- 52))) (Finite 1) =
     Finite (dbl 5044031582654960 (- 56))"
proof -
  have "double_round (dbl 4818851601286431 (- 52) - 1) = Finite (dbl 5044031582654960 (- 56))"
    by (rule double_round_dbl_eq) (simp_all add: dbl_def pow2_def)
  then show ?thesis
    by (simp add: pf_sub_def dbl_eq_0_iff dbl_def pow2_def)
qed

lemma step_S_11:
  "pf_mul (Finite (dbl 5044031582654960 (- 56))) (Finite (dbl 5044031582654960 (- 56))) =
     Finite (dbl 5649315372573560 (- 60))"
proof -
  have "double_round (dbl 5044031582654960 (- 56) * dbl 5044031582654960 (- 56)) =
     Finite (dbl 5649315372573560 (- 60))"
    by (rule double_round_nearest) (simp_all add: dbl_def pow2_def)
  then show ?thesis
    by (simp add: pf_sub_def dbl_eq_0_iff dbl_def pow2_def)
qed

lemma step_S_13:
  "pf_add (Finite (dbl 5649315372573542 (- 60))) (Finite (dbl 5649315372573560 (- 60))) =
     Finite (dbl 5649315372573551 (- 59))"
proof -
  have "double_round (dbl 5649315372573542 (- 60) + dbl 5649315372573560 (- 60)) =
     Finite (dbl 5649315372573551 (- 59))"
    by (rule double_round_dbl_eq) (simp_all add: dbl_def pow2_def)
  then show ?thesis
    by (simp add: pf_sub_def dbl_eq_0_iff dbl_def pow2_def)
qed

lemma step_S_14:
  "pf_add (Finite (dbl 5649315372573551 (- 59))) (Finite (dbl 5649315372573542 (- 60))) =
     Finite (dbl 8473973058860322 (- 59))"
proof -
  have "double_round (dbl 5649315372573551 (- 59) + dbl 5649315372573542 (- 60)) =
     Finite (dbl 8473973058860322 (- 59))"
    by (rule double_round_dbl_eq) (simp_all add: dbl_def pow2_def)
  then show ?thesis
    by (simp add: pf_sub_def dbl_eq_0_iff dbl_def pow2_def)
qed

lemma step_S_15:
  "pf_add (Finite (dbl 8473973058860322 (- 59))) (Finite (dbl 5649315372573560 (- 60))) =
     Finite (dbl 5649315372573551 (- 58))"
proof -
  have "double_round (dbl 8473973058860322 (- 59) + dbl 5649315372573560 (- 60)) =
     Finite (dbl 5649315372573551 (- 58))"
    by (rule double_round_dbl_eq) (simp_all add: dbl_def pow2_def)
  then show ?thesis
    by (simp add: pf_sub_def dbl_eq_0_iff dbl_def pow2_def)
qed

lemma step_S_16:
  "pf_add (Finite (dbl 5649315372573551 (- 58))) (Finite (dbl 5649315372573542 (- 60))) =
     Finite (dbl 7061644215716936 (- 58))"
proof -
  have "double_round (dbl 5649315372573551 (- 58) + dbl 5649315372573542 (- 60)) =
     Finite (dbl (if even (7061644215716936::int) then 7061644215716936 else 7061644215716936 + 1) (- 58))"
    by (rule double_round_tie) (simp_all add: dbl_def pow2_def)
  then show ?thesis
    by (simp add: pf_sub_def dbl_eq_0_iff dbl_def pow2_def)
qed

lemma step_S_17:
  "pf_add (Finite (dbl 7061644215716936 (- 58))) (Finite (dbl 5649315372573560 (- 60))) =
     Finite (dbl 8473973058860326 (- 58))"
proof -
  have "double_round (dbl 7061644215716936 (- 58) + dbl 5649315372573560 (- 60)) =
     Finite (dbl 8473973058860326 (- 58))"
    by (rule double_round_dbl_eq) (simp_all add: dbl_def pow2_def)
  then show ?thesis
    by (simp add: pf_sub_def dbl_eq_0_iff dbl_def pow2_def)
qed

lemma step_S_18:
  "pf_div (Finite (dbl 8473973058860326 (- 58))) (Finite 6) =
     Finite (dbl 5649315372573551 (- 60))"
proof -
  have "double_round (dbl 8473973058860326 (- 58) / 6) = Finite (dbl 5649315372573551 (- 60))"
    by (rule double_round_nearest) (simp_all add: dbl_def pow2_def)
  then show ?thesis
    by (simp add: pf_sub_def dbl_eq_0_iff dbl_def pow2_def)
qed

lemma step_S_19:
  "pf_sqrt (Finite (dbl 5649315372573551 (- 60))) =
     Finite (dbl 5044031582654956 (- 56))"
proof -
  have "double_round (sqrt (dbl 5649315372573551 (- 60))) = Finite (dbl 5044031582654956 (- 56))"
    by (rule double_round_sqrt_nearest)
       (simp_all add: dbl_def pow2_def power2_eq_square)
  then show ?thesis
    by (simp add: dbl_less_0_iff)
qed

lemma step_S_20:
  "pf_sub (Finite (dbl 5291729562160333 (- 52))) (Finite 1) =
     Finite (dbl 6305039478318696 (- 55))"
proof -
  have "double_round (dbl 5291729562160333 (- 52) - 1) = Finite (dbl 6305039478318696 (- 55))"
    by (rule double_round_dbl_eq) (simp_all add: dbl_def pow2_def)
  then show ?thesis
    by (simp add: pf_sub_def dbl_eq_0_iff dbl_def pow2_def)
qed

lemma step_S_21:
  "pf_div (Finite (dbl 6305039478318696 (- 55))) (Finite (dbl 5044031582654956 (- 56))) =
     Finite (dbl 5629499534213121 (- 51))"
proof -
  have "double_round (dbl 6305039478318696 (- 55) / dbl 5044031582654956 (- 56)) =
     Finite (dbl 5629499534213121 (- 51))"
    by (rule double_round_nearest) (simp_all add: dbl_def pow2_def)
  then show ?thesis
    by (simp add: pf_sub_def dbl_eq_0_iff dbl_def pow2_def)
qed

subsection \<open>Sums of short windows\<close>

lemma np_sum_small: "length vs < 8 \<Longrightarrow> np_sum vs = foldl pf_add (Finite 0) vs"
  by (simp add: np_sum_def pairwise_sum.simps)

text \<open>A window of ten values: one block of eight, the tree, then the two left over.\<close>

lemma np_sum_ten:
  "np_sum [Finite 1, Finite 2, Finite 3, Finite 4, Finite 5, Finite 6, Finite 7, Finite 8,
           Finite 9, Finite 10] = Finite 55"
  by (simp add: np_sum_def pairwise_sum.simps blocks8.simps tree8_def)

lemma pf_add_zero_dbl:
  "\<bar>m\<bar> < 2 ^ 53 \<Longrightarrow> - 1074 \<le> k \<Longrightarrow> k \<le> 970 \<Longrightarrow>
   pf_add (Finite 0) (Finite (dbl m k)) = Finite (dbl m k)"
  using double_round_dbl_eq [of "dbl m k" m k] by simp

lemma tenth_nearest: "double_round (1 / 10) = Finite tenth"
  unfolding tenth_def by (rule double_round_nearest) (simp_all add: dbl_def pow2_def)

lemma eleven_tenths_nearest: "double_round (11 / 10) = Finite eleven_tenths"
  unfolding eleven_tenths_def by (rule double_round_nearest) (simp_all add: dbl_def pow2_def)

lemma third_below_nearest: "double_round (1 / 3) = Finite third_below"
  unfolding third_below_def by (rule double_round_nearest) (simp_all add: dbl_def pow2_def)

subsection \<open>Scenario A, evaluated\<close>

lemma window_A:
  "fetch_window db_A (temp 6 10) 50 = [Finite 10, Finite 10, Finite 10, Finite 10, Finite 10]"
  by (simp add: fetch_window_def recent_data_def db_A_def reading_of_def)

lemma np_std_A: "np_std (fetch_window db_A (temp 6 10) 50) = Finite 0"
  by (simp add: window_A np_std_def np_mean_def np_sum_small pf_sub_def)

subsection \<open>Scenario E, evaluated\<close>

lemma window_E:
  "fetch_window db_E (temp 7 30) 50 =
     [Finite 8, Finite 12, Finite 8, Finite 12, Finite 8, Finite 12]"
  by (simp add: fetch_window_def recent_data_def db_E_def reading_of_def)

lemma np_mean_E: "np_mean (fetch_window db_E (temp 7 30) 50) = Finite 10"
  by (simp add: window_E np_mean_def np_sum_small)

lemma np_std_E: "np_std (fetch_window db_E (temp 7 30) 50) = Finite 2"
  by (simp add: window_E np_std_def np_mean_def np_sum_small pf_sub_def)

lemma value_E: "t_metric_value (temp 7 30) = Finite 30"
  by (simp add: reading_of_def)

lemma z_score_E: "z_score_of db_E (temp 7 30) 50 = Finite 10"
  by (simp add: z_score_of_def Let_def np_mean_E np_std_E value_E pf_sub_def)


subsection \<open>Scenario B, evaluated\<close>

lemma window_B:
  "fetch_window db_B (temp 6 30) 50 = [Finite 10, Finite 11, Finite 9, Finite 10, Finite 10]"
  by (simp add: fetch_window_def recent_data_def db_B_def reading_of_def)

lemma np_mean_B: "np_mean (fetch_window db_B (temp 6 30) 50) = Finite 10"
  by (simp add: window_B np_mean_def np_sum_small)

lemma np_std_B:
  "np_std (fetch_window db_B (temp 6 30) 50) = Finite (dbl 5696652996790543 (- 53))"
proof -
  let ?w = "[Finite 10, Finite 11, Finite 9, Finite 10, Finite 10]"
  have mean: "np_mean ?w = Finite 10"
    by (simp add: np_mean_def np_sum_small)
  have sq: "map (\<lambda>x. pf_mul (pf_abs (pf_sub x (Finite 10))) (pf_abs (pf_sub x (Finite 10)))) ?w =
      [Finite 0, Finite 1, Finite 1, Finite 0, Finite 0]"
    by (simp add: pf_sub_def)
  have sum: "np_sum [Finite 0, Finite 1, Finite 1, Finite 0, Finite 0] = Finite 2"
    by (simp add: np_sum_small)
  have var: "np_mean [Finite 0, Finite 1, Finite 1, Finite 0, Finite 0] =
      Finite (dbl 7205759403792794 (- 54))"
    unfolding np_mean_def sum using step_B_16 by simp
  show ?thesis
    unfolding window_B np_std_def Let_def mean sq var by (rule step_B_17)
qed

lemma value_B: "t_metric_value (temp 6 30) = Finite 30"
  by (simp add: reading_of_def)

lemma z_score_B: "z_score_of db_B (temp 6 30) 50 = Finite (dbl 8901020307485223 (- 48))"
proof -
  have "pf_sub (Finite 30) (Finite 10) = Finite 20"
    by (simp add: pf_sub_def)
  then show ?thesis
    unfolding z_score_of_def Let_def np_mean_B np_std_B value_B
    by (simp only: step_B_19 pf_abs.simps abs_dbl) simp
qed

subsection \<open>Scenario D, evaluated\<close>

lemma window_D:
  "fetch_window db_D (temp 6 103) 50 = [Finite 100, Finite 102, Finite 98, Finite 101, Finite 99]"
  by (simp add: fetch_window_def recent_data_def db_D_def reading_of_def)

lemma np_mean_D: "np_mean (fetch_window db_D (temp 6 103) 50) = Finite 100"
  by (simp add: window_D np_mean_def np_sum_small)

lemma np_std_D:
  "np_std (fetch_window db_D (temp 6 103) 50) = Finite (dbl 6369051672525773 (- 52))"
proof -
  let ?w = "[Finite 100, Finite 102, Finite 98, Finite 101, Finite 99]"
  have mean: "np_mean ?w = Finite 100"
    by (simp add: np_mean_def np_sum_small)
  have sq: "map (\<lambda>x. pf_mul (pf_abs (pf_sub x (Finite 100))) (pf_abs (pf_sub x (Finite 100)))) ?w =
      [Finite 0, Finite 4, Finite 4, Finite 1, Finite 1]"
    by (simp add: pf_sub_def)
  have var: "np_mean [Finite 0, Finite 4, Finite 4, Finite 1, Finite 1] = Finite 2"
    by (simp add: np_mean_def np_sum_small)
  show ?thesis
    unfolding window_D np_std_def Let_def mean sq var by (rule step_D_21)
qed

lemma value_D: "t_metric_value (temp 6 103) = Finite 103"
  by (simp add: reading_of_def)

lemma z_score_D: "z_score_of db_D (temp 6 103) 50 = Finite (dbl 4776788754394329 (- 51))"
proof -
  have "pf_sub (Finite 103) (Finite 100) = Finite 3"
    by (simp add: pf_sub_def)
  then show ?thesis
    unfolding z_score_of_def Let_def np_mean_D np_std_D value_D
    by (simp only: step_D_23 pf_abs.simps abs_dbl) simp
qed

subsection \<open>Scenario R, evaluated\<close>

lemma window_R:
  "fetch_window db_R (temp 7 11) 50 =
     [Finite 7, Finite 13, Finite 7, Finite 13, Finite 7, Finite 13]"
  by (simp add: fetch_window_def recent_data_def db_R_def reading_of_def)

lemma np_mean_R: "np_mean (fetch_window db_R (temp 7 11) 50) = Finite 10"
  by (simp add: window_R np_mean_def np_sum_small)

lemma np_std_R: "np_std (fetch_window db_R (temp 7 11) 50) = Finite 3"
  by (simp add: window_R np_std_def np_mean_def np_sum_small pf_sub_def sqrt_9)

lemma value_R: "t_metric_value (temp 7 11) = Finite 11"
  by (simp add: reading_of_def)

lemma z_score_R: "z_score_of db_R (temp 7 11) 50 = Finite third_below"
proof -
  have "pf_sub (Finite 11) (Finite 10) = Finite 1"
    by (simp add: pf_sub_def)
  then show ?thesis
    unfolding z_score_of_def Let_def np_mean_R np_std_R value_R third_below_def
    by (simp only: step_R_20 pf_abs.simps abs_dbl) simp
qed

subsection \<open>Scenario T, evaluated\<close>

lemma window_T:
  "fetch_window db_T (temp 7 eleven_tenths) 50 =
     [Finite tenth, Finite tenth, Finite tenth, Finite tenth, Finite tenth, Finite tenth]"
  by (simp add: fetch_window_def recent_data_def db_T_def reading_of_def)

lemma np_mean_T:
  "np_mean (fetch_window db_T (temp 7 eleven_tenths) 50) = Finite (dbl 7205759403792793 (- 56))"
proof -
  let ?x = "Finite (dbl 7205759403792794 (- 56))"
  have zero: "pf_add (Finite 0) ?x = ?x"
    by (rule pf_add_zero_dbl) simp_all
  have sum: "np_sum [?x, ?x, ?x, ?x, ?x, ?x] = Finite (dbl 5404319552844595 (- 53))"
    by (simp add: np_sum_small zero step_T_2 step_T_3 step_T_4 step_T_5 step_T_6
        del: pf_add.simps)
  show ?thesis
    unfolding window_T tenth_def np_mean_def sum using step_T_7 by simp
qed

lemma np_std_T:
  "np_std (fetch_window db_T (temp 7 eleven_tenths) 50) = Finite (dbl 4503599627370496 (- 108))"
proof -
  let ?x = "Finite (dbl 7205759403792794 (- 56))"
  let ?m = "Finite (dbl 7205759403792793 (- 56))"
  let ?q = "Finite (dbl 4503599627370496 (- 164))"
  have mean: "np_mean [?x, ?x, ?x, ?x, ?x, ?x] = ?m"
    using np_mean_T unfolding window_T tenth_def .
  have sq: "pf_mul (pf_abs (pf_sub ?x ?m)) (pf_abs (pf_sub ?x ?m)) = ?q"
    by (simp only: step_T_8 pf_abs.simps abs_dbl abs_numeral step_T_9)
  have zero: "pf_add (Finite 0) ?q = ?q"
    by (rule pf_add_zero_dbl) simp_all
  have sum: "np_sum [?q, ?q, ?q, ?q, ?q, ?q] = Finite (dbl 6755399441055744 (- 162))"
    by (simp add: np_sum_small zero step_T_11 step_T_12 step_T_13 step_T_14 step_T_15
        del: pf_add.simps)
  have var: "np_mean [?q, ?q, ?q, ?q, ?q, ?q] = ?q"
    unfolding np_mean_def sum using step_T_16 by simp
  show ?thesis
    unfolding window_T tenth_def np_std_def Let_def mean list.map sq var by (rule step_T_17)
qed

lemma value_T: "t_metric_value (temp 7 eleven_tenths) = Finite eleven_tenths"
  by (simp add: reading_of_def)

lemma z_score_T:
  "z_score_of db_T (temp 7 eleven_tenths) 50 = Finite (dbl 4503599627370496 4)"
proof -
  have "z_score_of db_T (temp 7 eleven_tenths) 50 =
      pf_abs (pf_div (pf_sub (Finite eleven_tenths) (Finite (dbl 7205759403792793 (- 56))))
                     (Finite (dbl 4503599627370496 (- 108))))"
    by (simp only: z_score_of_def Let_def np_mean_T np_std_T value_T)
  also have "\<dots> = Finite (dbl 4503599627370496 4)"
    unfolding eleven_tenths_def
    by (simp only: step_T_18 step_T_19 pf_abs.simps abs_dbl abs_numeral)
  finally show ?thesis .
qed

subsection \<open>The printed scores\<close>

lemma score_T_value: "dbl 4503599627370496 4 = 72057594037927936"
  by (simp add: dbl_def pow2_def)

lemma format_score_T: "format_2f (Finite (dbl 4503599627370496 4)) = ''72057594037927936.00''"
proof -
  have "\<bar>72057594037927936 :: real\<bar> * 100 = real_of_int 7205759403792793600"
    by simp
  then have "round_half_even (\<bar>72057594037927936 :: real\<bar> * 100) = 7205759403792793600"
    by (simp only: round_half_even_of_int)
  then show ?thesis
    unfolding score_T_value format_2f.simps format_2f_real_def
    by (simp add: str_nat.simps digit_char_def)
qed

lemma format_10: "format_2f (Finite 10) = ''10.00''"
proof -
  have "round_half_even (\<bar>10 :: real\<bar> * 100) = 1000"
    using round_half_even_of_int [of 1000] by simp
  then show ?thesis
    unfolding format_2f.simps format_2f_real_def
    by (simp add: str_nat.simps digit_char_def)
qed

lemma round_half_even_eqI:
  "real_of_int k \<le> y \<Longrightarrow> y < real_of_int k + 1 / 2 \<Longrightarrow> round_half_even y = k"
proof -
  assume a: "real_of_int k \<le> y" "y < real_of_int k + 1 / 2"
  then have "\<lfloor>y\<rfloor> = k" by (intro floor_unique) auto
  with a show ?thesis by (simp add: round_half_even_def)
qed

lemma score_B_bounds:
  "3162 / 100 \<le> dbl 8901020307485223 (- 48)" "dbl 8901020307485223 (- 48) < 3163 / 100"
  by (simp_all add: dbl_def pow2_def)

lemma round_score_B: "round_half_even (\<bar>dbl 8901020307485223 (- 48)\<bar> * 100) = 3162"
proof -
  have "round_half_even (dbl 8901020307485223 (- 48) * 100) = 3162"
    by (rule round_half_even_eqI) (simp_all add: dbl_def pow2_def)
  then show ?thesis
    by (simp add: abs_dbl)
qed

lemma format_score_B: "format_2f (Finite (dbl 8901020307485223 (- 48))) = ''31.62''"
proof -
  have "\<not> dbl 8901020307485223 (- 48) < 0"
    by (simp add: dbl_less_0_iff)
  then show ?thesis
    unfolding format_2f.simps format_2f_real_def round_score_B
    by (simp add: str_nat.simps digit_char_def)
qed

lemma score_B_above: "pf_gt (z_score_of db_B (temp 6 30) 50) (Finite (5 / 2))"
  unfolding z_score_B pf_gt.simps using score_B_bounds(1) by linarith

lemma score_D_below: "\<not> pf_gt (z_score_of db_D (temp 6 103) 50) (Finite (5 / 2))"
  unfolding z_score_D pf_gt.simps by (simp add: dbl_def pow2_def)

subsection \<open>Reading a printed score back\<close>

lemma round_half_even_error: "\<bar>real_of_int (round_half_even y) - y\<bar> \<le> 1 / 2"
  unfolding round_half_even_def Let_def by (auto; linarith)

lemma round_half_even_nonneg: "0 \<le> y \<Longrightarrow> 0 \<le> round_half_even y"
  unfolding round_half_even_def Let_def by (auto; linarith)

lemma digit_cases:
  "d < 10 \<Longrightarrow> d = 0 \<or> d = 1 \<or> d = 2 \<or> d = 3 \<or> d = 4 \<or> d = 5 \<or> d = 6 \<or> d = 7 \<or> d = 8 \<or> d = (9::nat)"
  by arith

lemma digit_val_digit_char:
  assumes "d < 10"
  shows "digit_val (digit_char d) = d"
  using digit_cases [OF assms] by (elim disjE) (simp_all add: digit_val_def digit_char_def)

lemma digit_char_plain:
  assumes "d < 10"
  shows "digit_char d \<noteq> CHR ''.'' \<and> digit_char d \<noteq> CHR ''-''"
  using digit_cases [OF assms] by (elim disjE) (simp_all add: digit_char_def)

lemma str_nat_plain: "c \<in> set (str_nat n) \<Longrightarrow> c \<noteq> CHR ''.'' \<and> c \<noteq> CHR ''-''"
proof (induction n arbitrary: c rule: str_nat.induct)
  case (1 n)
  show ?case
  proof (cases "n < 10")
    case True
    with "1.prems" show ?thesis
      by (simp add: str_nat.simps [of n] digit_char_plain)
  next
    case False
    with "1.prems" have "c \<in> set (str_nat (n div 10)) \<or> c = digit_char (n mod 10)"
      by (auto simp add: str_nat.simps [of n])
    then show ?thesis
      using "1.IH" [OF False] digit_char_plain [of "n mod 10"] by auto
  qed
qed

lemma str_nat_nonempty: "str_nat n \<noteq> []"
  by (simp add: str_nat.simps [of n])

lemma read_nat_snoc: "read_nat (s @ [c]) = 10 * read_nat s + digit_val c"
  by (simp add: read_nat_def)

lemma read_nat_str_nat: "read_nat (str_nat n) = n"
proof (induction n rule: str_nat.induct)
  case (1 n)
  show ?case
  proof (cases "n < 10")
    case True
    then show ?thesis
      by (simp add: str_nat.simps [of n] read_nat_def digit_val_digit_char)
  next
    case False
    then have "read_nat (str_nat n) = 10 * read_nat (str_nat (n div 10)) + n mod 10"
      by (simp add: str_nat.simps [of n] read_nat_snoc digit_val_digit_char)
    then show ?thesis
      using "1.IH" [OF False] by simp
  qed
qed

lemma read_unsigned_point:
  assumes "\<forall>c\<in>set ip. c \<noteq> CHR ''.''"
  shows "read_unsigned (ip @ ''.'' @ fp) = real (read_nat ip) + real (read_nat fp) / 10 ^ length fp"
proof -
  have "takeWhile (\<lambda>c. c \<noteq> CHR ''.'') (ip @ ''.'' @ fp) = ip"
    using assms by (simp add: takeWhile_append2)
  moreover have "dropWhile (\<lambda>c. c \<noteq> CHR ''.'') (ip @ ''.'' @ fp) = ''.'' @ fp"
    using assms by (simp add: dropWhile_append2)
  ultimately show ?thesis
    by (simp add: read_unsigned_def Let_def)
qed

lemma read_decimal_unsigned:
  "s \<noteq> [] \<Longrightarrow> hd s \<noteq> CHR ''-'' \<Longrightarrow> read_decimal s = read_unsigned s"
  by (cases s) (simp_all add: read_decimal_def)

lemma read_two_digits:
  "a < 10 \<Longrightarrow> b < 10 \<Longrightarrow> read_nat [digit_char a, digit_char b] = 10 * a + b"
  by (simp add: read_nat_def digit_val_digit_char)

lemma read_decimal_format_2f_real:
  assumes "0 \<le> x"
  shows "read_decimal (format_2f_real x) = real_of_int (round_half_even (x * 100)) / 100"
proof -
  define k where "k = round_half_even (x * 100)"
  define n where "n = nat k"
  have k: "0 \<le> k"
    unfolding k_def using assms by (intro round_half_even_nonneg) simp
  let ?fp = "[digit_char (n mod 100 div 10), digit_char (n mod 10)]"
  have fmt: "format_2f_real x = str_nat (n div 100) @ ''.'' @ ?fp"
    using assms by (simp add: format_2f_real_def Let_def n_def k_def)
  have plain: "\<forall>c\<in>set (str_nat (n div 100)). c \<noteq> CHR ''.''"
    using str_nat_plain by blast
  have "hd (format_2f_real x) = hd (str_nat (n div 100))"
    unfolding fmt using str_nat_nonempty by (rule hd_append2)
  moreover have "hd (str_nat (n div 100)) \<in> set (str_nat (n div 100))"
    using str_nat_nonempty by (rule hd_in_set)
  ultimately have "hd (format_2f_real x) \<noteq> CHR ''-''"
    using str_nat_plain by metis
  moreover have "format_2f_real x \<noteq> []"
    by (simp add: fmt)
  ultimately have "read_decimal (format_2f_real x) = read_unsigned (format_2f_real x)"
    by (intro read_decimal_unsigned)
  also have "\<dots> = real (read_nat (str_nat (n div 100))) + real (read_nat ?fp) / 10 ^ length ?fp"
    unfolding fmt using plain by (rule read_unsigned_point)
  also have "\<dots> = real (n div 100) + real (10 * (n mod 100 div 10) + n mod 10) / 100"
    by (simp add: read_nat_str_nat read_two_digits)
  also have "10 * (n mod 100 div 10) + n mod 10 = n mod 100"
  proof -
    have "n mod 10 = n mod 100 mod 10"
      by (simp add: mod_mod_cancel)
    then show ?thesis
      by (simp only: mult_div_mod_eq)
  qed
  also have "real (n div 100) + real (n mod 100) / 100 = real n / 100"
  proof -
    have "real (100 * (n div 100) + n mod 100) = real n"
      by (simp only: mult_div_mod_eq)
    then have "100 * real (n div 100) + real (n mod 100) = real n"
      by (simp only: of_nat_add of_nat_mult of_nat_numeral)
    then show ?thesis by argo
  qed
  also have "real n = real_of_int k"
    using k by (simp add: n_def)
  finally show ?thesis
    by (simp add: k_def)
qed

lemma read_decimal_format_close:
  assumes "0 \<le> x"
  shows "\<bar>read_decimal (format_2f_real x) - x\<bar> \<le> 1 / 200"
proof -
  have "\<bar>real_of_int (round_half_even (x * 100)) - x * 100\<bar> \<le> 1 / 2"
    by (rule round_half_even_error)
  then show ?thesis
    unfolding read_decimal_format_2f_real [OF assms] by (simp add: field_simps)
qed

lemma format_2f_real_two_decimals:
  "length (dropWhile (\<lambda>c. c \<noteq> CHR ''.'') (format_2f_real x)) = 3"
proof -
  define n where "n = nat (round_half_even (\<bar>x\<bar> * 100))"
  define sign where "sign = (if x < 0 then ''-'' else '''')"
  have fmt: "format_2f_real x = (sign @ str_nat (n div 100)) @
      ''.'' @ [digit_char (n mod 100 div 10), digit_char (n mod 10)]"
    by (simp add: format_2f_real_def Let_def n_def sign_def)
  have "\<forall>c\<in>set (sign @ str_nat (n div 100)). c \<noteq> CHR ''.''"
    using str_nat_plain by (auto simp add: sign_def)
  then show ?thesis
    unfolding fmt by (simp add: dropWhile_append2)
qed

subsection \<open>Scenario S, evaluated\<close>

lemma val_093_nearest: "double_round (93 / 100) = Finite val_093"
  unfolding val_093_def by (rule double_round_nearest) (simp_all add: dbl_def pow2_def)

lemma val_107_nearest: "double_round (107 / 100) = Finite val_107"
  unfolding val_107_def by (rule double_round_nearest) (simp_all add: dbl_def pow2_def)

lemma val_1175_nearest: "double_round (1175 / 1000) = Finite val_1175"
  unfolding val_1175_def by (rule double_round_nearest) (simp_all add: dbl_def pow2_def)

lemma window_S:
  "fetch_window db_S (temp 7 val_1175) 50 =
     [Finite val_093, Finite val_107, Finite val_093, Finite val_107, Finite val_093,
      Finite val_107]"
  by (simp add: fetch_window_def recent_data_def db_S_def reading_of_def)

lemma np_mean_S: "np_mean (fetch_window db_S (temp 7 val_1175) 50) = Finite 1"
proof -
  let ?a = "Finite (dbl 8376695306909123 (- 53))"
  let ?b = "Finite (dbl 4818851601286431 (- 52))"
  have zero: "pf_add (Finite 0) ?a = ?a"
    by (rule pf_add_zero_dbl) simp_all
  have sum: "np_sum [?a, ?b, ?a, ?b, ?a, ?b] = Finite 6"
    by (simp add: np_sum_small zero step_S_2 step_S_3 step_S_4 step_S_5 step_S_6
        del: pf_add.simps)
  show ?thesis
    unfolding window_S val_093_def val_107_def np_mean_def sum by simp
qed

lemma np_std_S:
  "np_std (fetch_window db_S (temp 7 val_1175) 50) = Finite (dbl 5044031582654956 (- 56))"
proof -
  let ?a = "Finite (dbl 8376695306909123 (- 53))"
  let ?b = "Finite (dbl 4818851601286431 (- 52))"
  let ?p = "Finite (dbl 5649315372573542 (- 60))"
  let ?q = "Finite (dbl 5649315372573560 (- 60))"
  have mean: "np_mean [?a, ?b, ?a, ?b, ?a, ?b] = Finite 1"
    using np_mean_S unfolding window_S val_093_def val_107_def .
  have sqa: "pf_mul (pf_abs (pf_sub ?a (Finite 1))) (pf_abs (pf_sub ?a (Finite 1))) = ?p"
    by (simp only: step_S_8 pf_abs.simps abs_dbl abs_neg_numeral step_S_9)
  have sqb: "pf_mul (pf_abs (pf_sub ?b (Finite 1))) (pf_abs (pf_sub ?b (Finite 1))) = ?q"
    by (simp only: step_S_10 pf_abs.simps abs_dbl abs_numeral step_S_11)
  have zero: "pf_add (Finite 0) ?p = ?p"
    by (rule pf_add_zero_dbl) simp_all
  have sum: "np_sum [?p, ?q, ?p, ?q, ?p, ?q] = Finite (dbl 8473973058860326 (- 58))"
    by (simp add: np_sum_small zero step_S_13 step_S_14 step_S_15 step_S_16 step_S_17
        del: pf_add.simps)
  have var: "np_mean [?p, ?q, ?p, ?q, ?p, ?q] = Finite (dbl 5649315372573551 (- 60))"
    unfolding np_mean_def sum using step_S_18 by simp
  show ?thesis
    unfolding window_S val_093_def val_107_def np_std_def Let_def mean list.map sqa sqb var
    by (rule step_S_19)
qed

lemma value_S: "t_metric_value (temp 7 val_1175) = Finite val_1175"
  by (simp add: reading_of_def)

lemma z_score_S:
  "z_score_of db_S (temp 7 val_1175) 50 = Finite (dbl 5629499534213121 (- 51))"
proof -
  have "z_score_of db_S (temp 7 val_1175) 50 =
      pf_abs (pf_div (pf_sub (Finite val_1175) (Finite 1))
                     (Finite (dbl 5044031582654956 (- 56))))"
    by (simp only: z_score_of_def Let_def np_mean_S np_std_S value_S)
  also have "\<dots> = Finite (dbl 5629499534213121 (- 51))"
    unfolding val_1175_def
    by (simp only: step_S_20 step_S_21 pf_abs.simps abs_dbl abs_numeral)
  finally show ?thesis .
qed

lemma score_S_above: "pf_gt (z_score_of db_S (temp 7 val_1175) 50) (Finite (5 / 2))"
  unfolding z_score_S pf_gt.simps by (simp add: dbl_def pow2_def)

lemma format_score_S: "format_2f (Finite (dbl 5629499534213121 (- 51))) = ''2.50''"
proof -
  have "round_half_even (dbl 5629499534213121 (- 51) * 100) = 250"
    by (rule round_half_even_eqI) (simp_all add: dbl_def pow2_def)
  then have "round_half_even (\<bar>dbl 5629499534213121 (- 51)\<bar> * 100) = 250"
    by (simp add: abs_dbl)
  moreover have "\<not> dbl 5629499534213121 (- 51) < 0"
    by (simp add: dbl_less_0_iff)
  ultimately show ?thesis
    unfolding format_2f.simps format_2f_real_def
    by (simp add: str_nat.simps digit_char_def)
qed

text \<open>The score over the reals, for the same window and reading, is below 2.5.\<close>

lemma exact_score_S:
  "0 < pop_std [val_093, val_107, val_093, val_107, val_093, val_107]"
  "\<bar>(val_1175 - arith_mean [val_093, val_107, val_093, val_107, val_093, val_107]) /
      pop_std [val_093, val_107, val_093, val_107, val_093, val_107]\<bar> < 5 / 2"
proof -
  let ?ws = "[val_093, val_107, val_093, val_107, val_093, val_107]"
  define m where "m = arith_mean ?ws"
  define s2 where "s2 = sum_list (map (\<lambda>x. (x - m)\<^sup>2) ?ws) / 6"
  have std: "pop_std ?ws = sqrt s2"
    by (simp add: pop_std_def s2_def m_def)
  have m: "m = dbl 18014398509481985 (- 54)"
    unfolding m_def arith_mean_def val_093_def val_107_def
    by (simp add: dbl_def pow2_def)
  have pos: "0 < s2"
    unfolding s2_def m val_093_def val_107_def
    by (simp add: dbl_def pow2_def power2_eq_square)
  have d: "0 < val_1175 - m"
    unfolding m val_1175_def by (simp add: dbl_def pow2_def)
  have "((val_1175 - m) * (2 / 5))\<^sup>2 < s2"
    unfolding s2_def m val_093_def val_107_def val_1175_def
    by (simp add: dbl_def pow2_def power2_eq_square)
  then have "(val_1175 - m) * (2 / 5) < sqrt s2"
    by (rule real_less_rsqrt)
  moreover have spos: "0 < sqrt s2"
    using pos by simp
  ultimately have "(val_1175 - m) / sqrt s2 < 5 / 2"
    by (simp add: pos_divide_less_eq)
  moreover have "\<bar>(val_1175 - m) / sqrt s2\<bar> = (val_1175 - m) / sqrt s2"
    using d spos by simp
  ultimately show "\<bar>(val_1175 - arith_mean ?ws) / pop_std ?ws\<bar> < 5 / 2"
    unfolding std m_def by simp
  show "0 < pop_std ?ws"
    unfolding std using spos .
qed

subsection \<open>Scenario R, over the reals\<close>

lemma exact_score_R:
  "0 < pop_std [7, 13, 7, 13, 7, 13]"
  "third_below < \<bar>(11 - arith_mean [7, 13, 7, 13, 7, 13]) / pop_std [7, 13, 7, 13, 7, 13]\<bar>"
proof -
  have m: "arith_mean [7, 13, 7, 13, 7, 13] = 10"
    by (simp add: arith_mean_def)
  have s: "pop_std [7, 13, 7, 13, 7, 13] = 3"
    by (simp add: pop_std_def m sqrt_9)
  show "0 < pop_std [7, 13, 7, 13, 7, 13]"
    by (simp add: s)
  show "third_below < \<bar>(11 - arith_mean [7, 13, 7, 13, 7, 13]) / pop_std [7, 13, 7, 13, 7, 13]\<bar>"
    by (simp add: m s third_below_def dbl_def pow2_def)
qed

subsection \<open>The guards of the detector\<close>

lemma window_C: "fetch_window db_C (temp 4 1000) 50 = [Finite 9, Finite 11, Finite 10]"
  by (simp add: fetch_window_def recent_data_def db_C_def reading_of_def)

text \<open>
  C3. Whenever the fetched window holds fewer than five values (the empty window
  included), the detector returns \<open>None\<close> whatever the value of the reading, and the
  database, hence the anomaly table, is returned unchanged.
\<close>

theorem small_window_no_verdict:
  assumes "length (fetch_window d r n) < 5"
  shows "detect_anomaly_zscore d r n thr = (d, Inr None)"
  using assms by (simp add: detect_anomaly_zscore_def)

theorem small_window_no_verdict_witness:
  "length (fetch_window db_C (temp 4 1000) 50) < 5 \<and>
   detect_anomaly_zscore db_C (temp 4 1000) 50 (Finite (5 / 2)) = (db_C, Inr None)"
proof -
  have h: "length (fetch_window db_C (temp 4 1000) 50) < 5"
    by (simp add: window_C)
  show ?thesis
    using h small_window_no_verdict [OF h, of "Finite (5 / 2)"] by simp
qed

subsection \<open>The outcomes of the detector\<close>

lemma create_anomaly_fresh:
  assumes "d_telemetry_id ad \<notin> a_telemetry_id ` set (anomalies d)"
  shows "\<exists>a. create_anomaly d ad = (d\<lparr>anomalies := anomalies d @ [a]\<rparr>, Inr a) \<and>
             a_telemetry_id a = d_telemetry_id ad \<and>
             a_device_id a = d_device_id ad \<and>
             a_metric_name a = d_metric_name ad \<and>
             a_metric_value a = d_metric_value ad \<and>
             a_timestamp a = d_timestamp ad \<and>
             a_anomaly_type a = Some (d_anomaly_type ad) \<and>
             a_threshold_used a = Some (d_threshold_used ad) \<and>
             a_id a = next_id (map a_id (anomalies d))"
  using assms by (simp add: create_anomaly_def Let_def)

lemma create_anomaly_duplicate:
  "d_telemetry_id ad \<in> a_telemetry_id ` set (anomalies d) \<Longrightarrow>
   create_anomaly d ad = (d, Inl IntegrityError)"
  by (simp add: create_anomaly_def)

lemma detect_no_verdict:
  "length (fetch_window d r n) < 5 \<or> pf_eq (np_std (fetch_window d r n)) (Finite 0) \<or>
     \<not> pf_gt (z_score_of d r n) thr \<Longrightarrow>
   detect_anomaly_zscore d r n thr = (d, Inr None)"
  by (auto simp add: detect_anomaly_zscore_def z_score_of_def Let_def)

lemma detect_duplicate:
  "\<lbrakk>5 \<le> length (fetch_window d r n); \<not> pf_eq (np_std (fetch_window d r n)) (Finite 0);
    pf_gt (z_score_of d r n) thr; t_id r \<in> a_telemetry_id ` set (anomalies d)\<rbrakk> \<Longrightarrow>
   detect_anomaly_zscore d r n thr = (d, Inl IntegrityError)"
  by (simp add: detect_anomaly_zscore_def z_score_of_def Let_def create_anomaly_duplicate)

lemma detect_fresh:
  assumes "5 \<le> length (fetch_window d r n)"
    and "\<not> pf_eq (np_std (fetch_window d r n)) (Finite 0)"
    and "pf_gt (z_score_of d r n) thr"
    and "t_id r \<notin> a_telemetry_id ` set (anomalies d)"
  shows "\<exists>a. detect_anomaly_zscore d r n thr = (d\<lparr>anomalies := anomalies d @ [a]\<rparr>, Inr (Some a)) \<and>
             a_telemetry_id a = t_id r \<and>
             a_device_id a = t_device_id r \<and>
             a_metric_name a = t_metric_name r \<and>
             a_metric_value a = t_metric_value r \<and>
             a_timestamp a = t_timestamp r \<and>
             a_anomaly_type a = Some (''High Z-score ('' @ format_2f (z_score_of d r n) @ '')'') \<and>
             a_threshold_used a = Some thr \<and>
             a_id a = next_id (map a_id (anomalies d))"
proof -
  let ?ad = "\<lparr>d_telemetry_id = t_id r, d_device_id = t_device_id r,
              d_metric_name = t_metric_name r, d_metric_value = t_metric_value r,
              d_timestamp = t_timestamp r,
              d_anomaly_type = ''High Z-score ('' @ format_2f (z_score_of d r n) @ '')'',
              d_threshold_used = thr\<rparr>"
  have det: "detect_anomaly_zscore d r n thr =
        (case create_anomaly d ?ad of (d', Inl e) \<Rightarrow> (d', Inl e) | (d', Inr a) \<Rightarrow> (d', Inr (Some a)))"
    using assms(1-3) by (simp add: detect_anomaly_zscore_def z_score_of_def Let_def)
  have "d_telemetry_id ?ad \<notin> a_telemetry_id ` set (anomalies d)"
    using assms(4) by simp
  from create_anomaly_fresh [OF this] obtain a where
    a: "create_anomaly d ?ad = (d\<lparr>anomalies := anomalies d @ [a]\<rparr>, Inr a)"
      "a_telemetry_id a = d_telemetry_id ?ad" "a_device_id a = d_device_id ?ad"
      "a_metric_name a = d_metric_name ?ad" "a_metric_value a = d_metric_value ?ad"
      "a_timestamp a = d_timestamp ?ad" "a_anomaly_type a = Some (d_anomaly_type ?ad)"
      "a_threshold_used a = Some (d_threshold_used ?ad)"
      "a_id a = next_id (map a_id (anomalies d))"
    by blast
  show ?thesis
    by (rule exI [of _ a]) (use a in \<open>simp add: det\<close>)
qed

lemma detect_fresh_eq:
  assumes "5 \<le> length (fetch_window d r n)"
    and "\<not> pf_eq (np_std (fetch_window d r n)) (Finite 0)"
    and "pf_gt (z_score_of d r n) thr"
    and "t_id r \<notin> a_telemetry_id ` set (anomalies d)"
  shows "detect_anomaly_zscore d r n thr =
     (d\<lparr>anomalies := anomalies d @
          [\<lparr>a_id = next_id (map a_id (anomalies d)),
            a_telemetry_id = t_id r,
            a_device_id = t_device_id r,
            a_metric_name = t_metric_name r,
            a_metric_value = t_metric_value r,
            a_timestamp = t_timestamp r,
            a_anomaly_type = Some (''High Z-score ('' @ format_2f (z_score_of d r n) @ '')''),
            a_threshold_used = Some thr\<rparr>]\<rparr>,
      Inr (Some \<lparr>a_id = next_id (map a_id (anomalies d)),
            a_telemetry_id = t_id r,
            a_device_id = t_device_id r,
            a_metric_name = t_metric_name r,
            a_metric_value = t_metric_value r,
            a_timestamp = t_timestamp r,
            a_anomaly_type = Some (''High Z-score ('' @ format_2f (z_score_of d r n) @ '')''),
            a_threshold_used = Some thr\<rparr>))"
  using assms
  by (simp add: detect_anomaly_zscore_def z_score_of_def create_anomaly_def Let_def)

lemma fetch_window_anomalies_update:
  "fetch_window (d\<lparr>anomalies := as\<rparr>) r n = fetch_window d r n"
  by (simp add: fetch_window_def recent_data_def)

lemma z_score_of_anomalies_update:
  "z_score_of (d\<lparr>anomalies := as\<rparr>) r n = z_score_of d r n"
  by (simp add: z_score_of_def fetch_window_anomalies_update)

lemma pf_gt_irrefl: "\<not> pf_gt z z"
  by (cases z) simp_all

lemma pf_abs_cases: "(\<exists>x. pf_abs y = Finite x \<and> 0 \<le> x) \<or> pf_abs y = PosInf \<or> pf_abs y = NaN"
  by (cases y) simp_all

subsection \<open>Equal values that miss the guard\<close>

lemma detect_T:
  "detect_anomaly_zscore db_T (temp 7 eleven_tenths) 50 (Finite (5 / 2)) =
     (db_T\<lparr>anomalies := [anomaly_T]\<rparr>, Inr (Some anomaly_T))"
proof -
  have len: "5 \<le> length (fetch_window db_T (temp 7 eleven_tenths) 50)"
    by (simp add: window_T)
  have nz: "\<not> pf_eq (np_std (fetch_window db_T (temp 7 eleven_tenths) 50)) (Finite 0)"
    by (simp add: np_std_T dbl_eq_0_iff)
  have gt: "pf_gt (z_score_of db_T (temp 7 eleven_tenths) 50) (Finite (5 / 2))"
    by (simp add: z_score_T score_T_value)
  have fresh: "t_id (temp 7 eleven_tenths) \<notin> a_telemetry_id ` set (anomalies db_T)"
    by (simp add: db_T_def)
  note eq = detect_fresh_eq [OF len nz gt fresh, unfolded z_score_T format_score_T]
  show ?thesis
    unfolding eq by (simp add: anomaly_T_def db_T_def reading_of_def next_id_def)
qed

lemma detect_A: "detect_anomaly_zscore db_A (temp 6 10) 50 (Finite (5 / 2)) = (db_A, Inr None)"
  by (rule detect_no_verdict) (simp add: np_std_A)

text \<open>
  C4 (refuted by the code). The guard of line 195 compares the computed deviation with
  zero, and the comment beside it gives its purpose: no division when all values of the
  window are identical. For a window of equal values the computed deviation is zero
  only when the computed mean is that value. The mean is a rounded sum divided by the
  count, and it can miss the value: six stored values 0.1 have the computed mean
  0.09999999999999999 and the computed deviation \<open>2\<^sup>-\<^sup>5\<^sup>6\<close>, about 1.39e-17. The
  guard does not fire, the reading 1.1 is divided by that deviation, and an anomaly is
  recorded with the score 72057594037927936. Scenario A, five values 10 and the
  reading 10, does return \<open>None\<close>.
\<close>

theorem constant_window_flagged:
  "double_round (1 / 10) = Finite tenth \<and>
   double_round (11 / 10) = Finite eleven_tenths \<and>
   fetch_window db_T (temp 7 eleven_tenths) 50 = replicate 6 (Finite tenth) \<and>
   np_mean (fetch_window db_T (temp 7 eleven_tenths) 50) = Finite (dbl 7205759403792793 (- 56)) \<and>
   dbl 7205759403792793 (- 56) < tenth \<and>
   np_std (fetch_window db_T (temp 7 eleven_tenths) 50) = Finite (dbl 4503599627370496 (- 108)) \<and>
   \<not> pf_eq (np_std (fetch_window db_T (temp 7 eleven_tenths) 50)) (Finite 0) \<and>
   z_score_of db_T (temp 7 eleven_tenths) 50 = Finite 72057594037927936 \<and>
   detect_anomaly_zscore db_T (temp 7 eleven_tenths) 50 (Finite (5 / 2)) =
     (db_T\<lparr>anomalies := [anomaly_T]\<rparr>, Inr (Some anomaly_T)) \<and>
   a_anomaly_type anomaly_T = Some ''High Z-score (72057594037927936.00)'' \<and>
   np_std (fetch_window db_A (temp 6 10) 50) = Finite 0 \<and>
   detect_anomaly_zscore db_A (temp 6 10) 50 (Finite (5 / 2)) = (db_A, Inr None)"
proof -
  have "fetch_window db_T (temp 7 eleven_tenths) 50 = replicate 6 (Finite tenth)"
    unfolding window_T by (simp add: numeral_eq_Suc)
  moreover have "dbl 7205759403792793 (- 56) < tenth"
    by (simp add: tenth_def dbl_def pow2_def)
  moreover have "\<not> pf_eq (np_std (fetch_window db_T (temp 7 eleven_tenths) 50)) (Finite 0)"
    by (simp add: np_std_T dbl_eq_0_iff)
  moreover have "z_score_of db_T (temp 7 eleven_tenths) 50 = Finite 72057594037927936"
    by (simp only: z_score_T score_T_value)
  moreover have "a_anomaly_type anomaly_T = Some ''High Z-score (72057594037927936.00)''"
    by (simp add: anomaly_T_def)
  ultimately show ?thesis
    using tenth_nearest eleven_tenths_nearest np_mean_T np_std_T detect_T np_std_A detect_A
    by blast
qed

subsection \<open>A flagged reading, evaluated\<close>

lemma length_E: "5 \<le> length (fetch_window db_E (temp 7 30) 50)"
  by (simp add: window_E)

lemma detect_E:
  "detect_anomaly_zscore db_E (temp 7 30) 50 (Finite (5 / 2)) = (db_E_flagged, Inr (Some anomaly_E))"
proof -
  have fresh: "t_id (temp 7 30) \<notin> a_telemetry_id ` set (anomalies db_E)"
    by (simp add: db_E_def)
  have nz: "\<not> pf_eq (np_std (fetch_window db_E (temp 7 30) 50)) (Finite 0)"
    by (simp add: np_std_E)
  have gt: "pf_gt (z_score_of db_E (temp 7 30) 50) (Finite (5 / 2))"
    by (simp add: z_score_E)
  from detect_fresh [OF length_E nz gt fresh]
  obtain a where a: "detect_anomaly_zscore db_E (temp 7 30) 50 (Finite (5 / 2)) =
        (db_E\<lparr>anomalies := anomalies db_E @ [a]\<rparr>, Inr (Some a))"
      "a_telemetry_id a = t_id (temp 7 30)" "a_device_id a = t_device_id (temp 7 30)"
      "a_metric_name a = t_metric_name (temp 7 30)" "a_metric_value a = t_metric_value (temp 7 30)"
      "a_timestamp a = t_timestamp (temp 7 30)"
      "a_anomaly_type a = Some (''High Z-score ('' @ format_2f (z_score_of db_E (temp 7 30) 50) @ '')'')"
      "a_threshold_used a = Some (Finite (5 / 2))"
      "a_id a = next_id (map a_id (anomalies db_E))"
    by blast
  note fields = a(2-9) [unfolded z_score_E format_10]
  have "a = anomaly_E"
    by (rule Anomaly.equality)
       (simp_all add: fields anomaly_E_def reading_of_def db_E_def next_id_def)
  with a(1) show ?thesis
    by (simp add: db_E_flagged_def db_E_def)
qed

lemma detect_E_flagged:
  "detect_anomaly_zscore db_E_flagged (temp 7 30) 50 (Finite (5 / 2)) = (db_E_flagged, Inl IntegrityError)"
proof (rule detect_duplicate)
  show "5 \<le> length (fetch_window db_E_flagged (temp 7 30) 50)"
    unfolding db_E_flagged_def fetch_window_anomalies_update by (rule length_E)
  show "\<not> pf_eq (np_std (fetch_window db_E_flagged (temp 7 30) 50)) (Finite 0)"
    unfolding db_E_flagged_def fetch_window_anomalies_update by (simp add: np_std_E)
  show "pf_gt (z_score_of db_E_flagged (temp 7 30) 50) (Finite (5 / 2))"
    unfolding db_E_flagged_def z_score_of_anomalies_update by (simp add: z_score_E)
  show "t_id (temp 7 30) \<in> a_telemetry_id ` set (anomalies db_E_flagged)"
    by (simp add: db_E_flagged_def anomaly_E_def reading_of_def)
qed

subsection \<open>A score that rounding lifts over the threshold\<close>

lemma detect_S:
  "detect_anomaly_zscore db_S (temp 7 val_1175) 50 (Finite (5 / 2)) =
     (db_S\<lparr>anomalies := [anomaly_S]\<rparr>, Inr (Some anomaly_S))"
proof -
  have len: "5 \<le> length (fetch_window db_S (temp 7 val_1175) 50)"
    by (simp add: window_S)
  have nz: "\<not> pf_eq (np_std (fetch_window db_S (temp 7 val_1175) 50)) (Finite 0)"
    by (simp add: np_std_S dbl_eq_0_iff)
  have fresh: "t_id (temp 7 val_1175) \<notin> a_telemetry_id ` set (anomalies db_S)"
    by (simp add: db_S_def)
  note eq = detect_fresh_eq [OF len nz score_S_above fresh, unfolded z_score_S format_score_S]
  show ?thesis
    unfolding eq by (simp add: anomaly_S_def db_S_def reading_of_def next_id_def)
qed

lemma detect_R:
  "detect_anomaly_zscore db_R (temp 7 11) 50 (Finite third_below) = (db_R, Inr None)"
  by (rule detect_no_verdict) (simp add: z_score_R)

subsection \<open>The verdict and the threshold\<close>

lemma detect_SomeD:
  assumes "detect_anomaly_zscore d r n thr = (d', Inr (Some a))"
  shows "5 \<le> length (fetch_window d r n) \<and>
         \<not> pf_eq (np_std (fetch_window d r n)) (Finite 0) \<and>
         pf_gt (z_score_of d r n) thr \<and>
         t_id r \<notin> a_telemetry_id ` set (anomalies d)"
proof -
  have "\<not> (length (fetch_window d r n) < 5 \<or> pf_eq (np_std (fetch_window d r n)) (Finite 0) \<or>
     \<not> pf_gt (z_score_of d r n) thr)"
    using detect_no_verdict [of d r n thr] assms by auto
  moreover from this have "t_id r \<notin> a_telemetry_id ` set (anomalies d)"
    using detect_duplicate [of d r n thr] assms by auto
  ultimately show ?thesis by auto
qed

lemma detect_NoneD:
  assumes "snd (detect_anomaly_zscore d r n thr) = Inr None"
  shows "length (fetch_window d r n) < 5 \<or> pf_eq (np_std (fetch_window d r n)) (Finite 0) \<or>
     \<not> pf_gt (z_score_of d r n) thr"
proof (rule ccontr)
  assume neg: "\<not> ?thesis"
  show False
  proof (cases "t_id r \<in> a_telemetry_id ` set (anomalies d)")
    case True
    with neg have "detect_anomaly_zscore d r n thr = (d, Inl IntegrityError)"
      by (intro detect_duplicate) auto
    with assms show False by simp
  next
    case False
    with neg obtain a where
      "detect_anomaly_zscore d r n thr = (d\<lparr>anomalies := anomalies d @ [a]\<rparr>, Inr (Some a))"
      using detect_fresh [of d r n thr] by auto
    with assms show False by simp
  qed
qed

lemma pf_gt_antimono: "pf_gt z (Finite t) \<Longrightarrow> t' \<le> t \<Longrightarrow> pf_gt z (Finite t')"
  by (cases z) simp_all

text \<open>
  C2 (amended). For a reading that has no anomaly row yet and a fetched window of at
  least five values whose computed deviation is not zero, the detector returns an
  anomaly if and only if the score it computes is strictly above the threshold; a
  computed score equal to the threshold, or below it, gives \<open>None\<close> and leaves the
  database as it was. The score is that of line 198: the value minus the computed
  mean, over the computed deviation, every operation rounded to a double. The claim as
  written fails in two ways. On a reading that is already flagged, a score above the
  threshold ends in the integrity error of the unique \<^verbatim>\<open>telemetry_id\<close>. And the
  computed score is not the quotient over the reals: for the window 0.93, 1.07, 0.93,
  1.07, 0.93, 1.07 and the reading 1.175 the quotient over the reals is below 2.5, the
  computed score is 2.5000000000000004, and an anomaly is recorded at the threshold 2.5;
  for the window 7, 13, 7, 13, 7, 13, the reading 11 and the threshold
  0.3333333333333333 the quotient over the reals, a third, is above the threshold, the
  computed score equals it, and nothing is recorded.
\<close>

theorem zscore_verdict_computed_score:
  assumes "5 \<le> length (fetch_window d r n)"
    and "\<not> pf_eq (np_std (fetch_window d r n)) (Finite 0)"
    and "t_id r \<notin> a_telemetry_id ` set (anomalies d)"
  shows "z_score_of d r n =
           pf_abs (pf_div (pf_sub (t_metric_value r) (np_mean (fetch_window d r n)))
                          (np_std (fetch_window d r n))) \<and>
         ((\<exists>d' a. detect_anomaly_zscore d r n thr = (d', Inr (Some a))) \<longleftrightarrow>
            pf_gt (z_score_of d r n) thr) \<and>
         (\<not> pf_gt (z_score_of d r n) thr \<longrightarrow>
            detect_anomaly_zscore d r n thr = (d, Inr None)) \<and>
         (z_score_of d r n = thr \<longrightarrow> detect_anomaly_zscore d r n thr = (d, Inr None))"
proof -
  have score: "z_score_of d r n =
           pf_abs (pf_div (pf_sub (t_metric_value r) (np_mean (fetch_window d r n)))
                          (np_std (fetch_window d r n)))"
    by (simp add: z_score_of_def Let_def)
  have "\<exists>d' a. detect_anomaly_zscore d r n thr = (d', Inr (Some a))"
    if "pf_gt (z_score_of d r n) thr"
    using detect_fresh [OF assms(1,2) that assms(3)] by blast
  moreover have "pf_gt (z_score_of d r n) thr"
    if "detect_anomaly_zscore d r n thr = (d', Inr (Some a))" for d' a
    using detect_SomeD [OF that] by blast
  moreover have none: "detect_anomaly_zscore d r n thr = (d, Inr None)"
    if "\<not> pf_gt (z_score_of d r n) thr"
    using detect_no_verdict [of d r n thr] that by blast
  moreover have "detect_anomaly_zscore d r n thr = (d, Inr None)"
    if "z_score_of d r n = thr"
    using none pf_gt_irrefl [of thr] that by simp
  ultimately show ?thesis
    using score by blast
qed

theorem zscore_verdict_computed_score_witness:
  "5 \<le> length (fetch_window db_E (temp 7 30) 50) \<and>
   np_std (fetch_window db_E (temp 7 30) 50) = Finite 2 \<and>
   z_score_of db_E (temp 7 30) 50 = Finite 10 \<and>
   (\<exists>d' a. detect_anomaly_zscore db_E (temp 7 30) 50 (Finite (5 / 2)) = (d', Inr (Some a))) \<and>
   detect_anomaly_zscore db_E (temp 7 30) 50 (Finite 10) = (db_E, Inr None) \<and>
   detect_anomaly_zscore db_E (temp 7 30) 50 (Finite 11) = (db_E, Inr None)"
proof -
  have nz: "\<not> pf_eq (np_std (fetch_window db_E (temp 7 30) 50)) (Finite 0)"
    by (simp add: np_std_E)
  have fresh: "t_id (temp 7 30) \<notin> a_telemetry_id ` set (anomalies db_E)"
    by (simp add: db_E_def)
  note inst = zscore_verdict_computed_score [OF length_E nz fresh]
  note iff = inst [THEN conjunct2, THEN conjunct1, unfolded z_score_E]
  note below = inst [THEN conjunct2, THEN conjunct2, THEN conjunct1, unfolded z_score_E]
  note equal = inst [THEN conjunct2, THEN conjunct2, THEN conjunct2, unfolded z_score_E]
  have "\<exists>d' a. detect_anomaly_zscore db_E (temp 7 30) 50 (Finite (5 / 2)) = (d', Inr (Some a))"
    using iff [of "Finite (5 / 2)"] by simp
  moreover have "detect_anomaly_zscore db_E (temp 7 30) 50 (Finite 10) = (db_E, Inr None)"
    using equal [of "Finite 10"] by simp
  moreover have "detect_anomaly_zscore db_E (temp 7 30) 50 (Finite 11) = (db_E, Inr None)"
    using below [of "Finite 11"] by simp
  ultimately show ?thesis
    using length_E np_std_E z_score_E by blast
qed

theorem zscore_verdict_counterexample:
  "pf_gt (z_score_of db_E_flagged (temp 7 30) 50) (Finite (5 / 2)) \<and>
   detect_anomaly_zscore db_E_flagged (temp 7 30) 50 (Finite (5 / 2)) =
     (db_E_flagged, Inl IntegrityError) \<and>
   double_round (93 / 100) = Finite val_093 \<and>
   double_round (107 / 100) = Finite val_107 \<and>
   double_round (1175 / 1000) = Finite val_1175 \<and>
   fetch_window db_S (temp 7 val_1175) 50 =
     map Finite [val_093, val_107, val_093, val_107, val_093, val_107] \<and>
   t_metric_value (temp 7 val_1175) = Finite val_1175 \<and>
   0 < pop_std [val_093, val_107, val_093, val_107, val_093, val_107] \<and>
   \<bar>(val_1175 - arith_mean [val_093, val_107, val_093, val_107, val_093, val_107]) /
      pop_std [val_093, val_107, val_093, val_107, val_093, val_107]\<bar> < 5 / 2 \<and>
   detect_anomaly_zscore db_S (temp 7 val_1175) 50 (Finite (5 / 2)) =
     (db_S\<lparr>anomalies := [anomaly_S]\<rparr>, Inr (Some anomaly_S)) \<and>
   double_round (1 / 3) = Finite third_below \<and>
   fetch_window db_R (temp 7 11) 50 = map Finite [7, 13, 7, 13, 7, 13] \<and>
   t_metric_value (temp 7 11) = Finite 11 \<and>
   0 < pop_std [7, 13, 7, 13, 7, 13] \<and>
   third_below < \<bar>(11 - arith_mean [7, 13, 7, 13, 7, 13]) / pop_std [7, 13, 7, 13, 7, 13]\<bar> \<and>
   detect_anomaly_zscore db_R (temp 7 11) 50 (Finite third_below) = (db_R, Inr None)"
proof -
  have "pf_gt (z_score_of db_E_flagged (temp 7 30) 50) (Finite (5 / 2))"
    unfolding db_E_flagged_def z_score_of_anomalies_update by (simp add: z_score_E)
  moreover have "fetch_window db_S (temp 7 val_1175) 50 =
     map Finite [val_093, val_107, val_093, val_107, val_093, val_107]"
    by (simp add: window_S)
  moreover have "fetch_window db_R (temp 7 11) 50 = map Finite [7, 13, 7, 13, 7, 13]"
    by (simp add: window_R)
  ultimately show ?thesis
    using detect_E_flagged value_S exact_score_S detect_S value_R exact_score_R detect_R
      val_093_nearest val_107_nearest val_1175_nearest third_below_nearest
    by blast
qed

text \<open>
  C10. The verdict is monotone in the threshold. If the detector returns an anomaly at
  threshold \<open>t\<close>, then at every \<open>t' \<le> t\<close> it returns the same anomaly, the recorded
  threshold apart: the label, and so the score, does not depend on the threshold. If it
  returns \<open>None\<close> at \<open>t\<close>, it returns \<open>None\<close> at every \<open>t'' \<ge> t\<close>. This holds for
  every window, in particular for those of at least five values and positive deviation.
\<close>

theorem verdict_monotone_in_threshold:
  "(detect_anomaly_zscore d r n (Finite t) = (d1, Inr (Some a)) \<and> t' \<le> t \<longrightarrow>
      detect_anomaly_zscore d r n (Finite t') =
        (d\<lparr>anomalies := anomalies d @ [a\<lparr>a_threshold_used := Some (Finite t')\<rparr>]\<rparr>,
         Inr (Some (a\<lparr>a_threshold_used := Some (Finite t')\<rparr>)))) \<and>
   (snd (detect_anomaly_zscore d r n (Finite t)) = Inr None \<and> t \<le> t'' \<longrightarrow>
      detect_anomaly_zscore d r n (Finite t'') = (d, Inr None))"
proof (intro conjI impI; elim conjE)
  assume det: "detect_anomaly_zscore d r n (Finite t) = (d1, Inr (Some a))" and le: "t' \<le> t"
  note c = detect_SomeD [OF det]
  have gt': "pf_gt (z_score_of d r n) (Finite t')"
    using c le by (blast intro: pf_gt_antimono)
  from detect_fresh [of d r n "Finite t"] c obtain b where
    b: "detect_anomaly_zscore d r n (Finite t) = (d\<lparr>anomalies := anomalies d @ [b]\<rparr>, Inr (Some b))"
      "a_telemetry_id b = t_id r" "a_device_id b = t_device_id r"
      "a_metric_name b = t_metric_name r" "a_metric_value b = t_metric_value r"
      "a_timestamp b = t_timestamp r"
      "a_anomaly_type b = Some (''High Z-score ('' @ format_2f (z_score_of d r n) @ '')'')"
      "a_id b = next_id (map a_id (anomalies d))"
    by blast
  have ab: "b = a" using b(1) det by simp
  from detect_fresh [of d r n "Finite t'"] c gt' obtain b' where
    b': "detect_anomaly_zscore d r n (Finite t') = (d\<lparr>anomalies := anomalies d @ [b']\<rparr>, Inr (Some b'))"
      "a_telemetry_id b' = t_id r" "a_device_id b' = t_device_id r"
      "a_metric_name b' = t_metric_name r" "a_metric_value b' = t_metric_value r"
      "a_timestamp b' = t_timestamp r"
      "a_anomaly_type b' = Some (''High Z-score ('' @ format_2f (z_score_of d r n) @ '')'')"
      "a_threshold_used b' = Some (Finite t')"
      "a_id b' = next_id (map a_id (anomalies d))"
    by blast
  have "b' = a\<lparr>a_threshold_used := Some (Finite t')\<rparr>"
    by (rule Anomaly.equality) (simp_all add: b' b(2-8) [unfolded ab])
  with b'(1) show "detect_anomaly_zscore d r n (Finite t') =
        (d\<lparr>anomalies := anomalies d @ [a\<lparr>a_threshold_used := Some (Finite t')\<rparr>]\<rparr>,
         Inr (Some (a\<lparr>a_threshold_used := Some (Finite t')\<rparr>)))"
    by simp
next
  assume nv: "snd (detect_anomaly_zscore d r n (Finite t)) = Inr None" and le: "t \<le> t''"
  from detect_NoneD [OF nv] have
    "length (fetch_window d r n) < 5 \<or> pf_eq (np_std (fetch_window d r n)) (Finite 0) \<or>
     \<not> pf_gt (z_score_of d r n) (Finite t'')"
    using le by (blast intro: pf_gt_antimono)
  then show "detect_anomaly_zscore d r n (Finite t'') = (d, Inr None)"
    by (rule detect_no_verdict)
qed

theorem verdict_monotone_in_threshold_witness:
  "detect_anomaly_zscore db_E (temp 7 30) 50 (Finite (5 / 2)) = (db_E_flagged, Inr (Some anomaly_E)) \<and>
   detect_anomaly_zscore db_E (temp 7 30) 50 (Finite 1) =
     (db_E\<lparr>anomalies := anomalies db_E @ [anomaly_E\<lparr>a_threshold_used := Some (Finite 1)\<rparr>]\<rparr>,
      Inr (Some (anomaly_E\<lparr>a_threshold_used := Some (Finite 1)\<rparr>))) \<and>
   detect_anomaly_zscore db_E (temp 7 30) 50 (Finite 10) = (db_E, Inr None) \<and>
   detect_anomaly_zscore db_E (temp 7 30) 50 (Finite 11) = (db_E, Inr None)"
proof -
  have at10: "detect_anomaly_zscore db_E (temp 7 30) 50 (Finite 10) = (db_E, Inr None)"
    by (rule detect_no_verdict) (simp add: z_score_E)
  have "detect_anomaly_zscore db_E (temp 7 30) 50 (Finite 1) =
     (db_E\<lparr>anomalies := anomalies db_E @ [anomaly_E\<lparr>a_threshold_used := Some (Finite 1)\<rparr>]\<rparr>,
      Inr (Some (anomaly_E\<lparr>a_threshold_used := Some (Finite 1)\<rparr>)))"
    using verdict_monotone_in_threshold [of db_E "temp 7 30" 50 "5 / 2" db_E_flagged anomaly_E 1]
      detect_E by simp
  moreover have "detect_anomaly_zscore db_E (temp 7 30) 50 (Finite 11) = (db_E, Inr None)"
    using verdict_monotone_in_threshold [of db_E "temp 7 30" 50 10 _ _ _ 11] at10 by simp
  ultimately show ?thesis
    using detect_E at10 by blast
qed

subsection \<open>Scenario B, recorded\<close>

lemma length_B: "5 \<le> length (fetch_window db_B (temp 6 30) 50)"
  by (simp add: window_B)

lemma fresh_B: "t_id (temp 6 30) \<notin> a_telemetry_id ` set (anomalies db_B)"
  by (simp add: db_B_def)

lemma round_score_B_plain: "round_half_even (dbl 8901020307485223 (- 48) * 100) = 3162"
  by (rule round_half_even_eqI) (simp_all add: dbl_def pow2_def)

subsection \<open>Recording\<close>

text \<open>
  C8. Whenever the detector returns an anomaly, exactly one row has been appended to the
  anomaly table and it is the only row for that reading; its device, metric, value and
  timestamp are the reading's, its \<^verbatim>\<open>telemetry_id\<close> is the reading's id, its
  \<^verbatim>\<open>threshold_used\<close> is the threshold applied, and its \<^verbatim>\<open>anomaly_type\<close> is the
  label \<^verbatim>\<open>High Z-score (s)\<close>. The computed score is then a number that is not
  negative, or infinite. For a number, \<open>s\<close> is a numeral with exactly two digits after
  the point, and read back as a decimal it is the score times 100, rounded to the
  nearest integer (ties to even), over 100: at most 0.005 away from the score. For an
  infinite score \<open>s\<close> is \<^verbatim>\<open>inf\<close>. The witness is scenario B: the window 10, 11, 9,
  10, 10 and the reading 30 give the score 31.622776601683793, the label
  \<^verbatim>\<open>High Z-score (31.62)\<close> and the threshold 2.5.
\<close>

theorem anomaly_record_copies_reading:
  assumes "detect_anomaly_zscore d r n thr = (d', Inr (Some a))"
  shows "d' = d\<lparr>anomalies := anomalies d @ [a]\<rparr> \<and>
         length (filter (\<lambda>x. a_telemetry_id x = t_id r) (anomalies d')) = 1 \<and>
         a_telemetry_id a = t_id r \<and>
         a_device_id a = t_device_id r \<and>
         a_metric_name a = t_metric_name r \<and>
         a_metric_value a = t_metric_value r \<and>
         a_timestamp a = t_timestamp r \<and>
         a_threshold_used a = Some thr \<and>
         a_anomaly_type a = Some (''High Z-score ('' @ format_2f (z_score_of d r n) @ '')'') \<and>
         ((\<exists>x. z_score_of d r n = Finite x \<and> 0 \<le> x) \<or> z_score_of d r n = PosInf) \<and>
         (\<forall>x. z_score_of d r n = Finite x \<longrightarrow>
            read_decimal (format_2f (z_score_of d r n)) =
              real_of_int (round_half_even (x * 100)) / 100 \<and>
            \<bar>read_decimal (format_2f (z_score_of d r n)) - x\<bar> \<le> 1 / 200 \<and>
            length (dropWhile (\<lambda>c. c \<noteq> CHR ''.'') (format_2f (z_score_of d r n))) = 3) \<and>
         (z_score_of d r n = PosInf \<longrightarrow> format_2f (z_score_of d r n) = ''inf'')"
proof -
  note c = detect_SomeD [OF assms]
  from detect_fresh [of d r n thr] c obtain b where
    b: "detect_anomaly_zscore d r n thr = (d\<lparr>anomalies := anomalies d @ [b]\<rparr>, Inr (Some b))"
      "a_telemetry_id b = t_id r" "a_device_id b = t_device_id r"
      "a_metric_name b = t_metric_name r" "a_metric_value b = t_metric_value r"
      "a_timestamp b = t_timestamp r"
      "a_anomaly_type b = Some (''High Z-score ('' @ format_2f (z_score_of d r n) @ '')'')"
      "a_threshold_used b = Some thr"
    by blast
  have ab: "b = a" and d': "d' = d\<lparr>anomalies := anomalies d @ [a]\<rparr>"
    using b(1) assms by simp_all
  have none: "filter (\<lambda>x. a_telemetry_id x = t_id r) (anomalies d) = []"
    using c by (force simp add: filter_empty_conv image_iff)
  have one: "length (filter (\<lambda>x. a_telemetry_id x = t_id r) (anomalies d')) = 1"
    using b(2) by (simp add: d' none ab)
  have gt: "pf_gt (z_score_of d r n) thr"
    using c by blast
  have "z_score_of d r n \<noteq> NaN"
    using gt by auto
  moreover have "(\<exists>x. z_score_of d r n = Finite x \<and> 0 \<le> x) \<or> z_score_of d r n = PosInf \<or>
      z_score_of d r n = NaN"
    unfolding z_score_of_def Let_def by (rule pf_abs_cases)
  ultimately have shape: "(\<exists>x. z_score_of d r n = Finite x \<and> 0 \<le> x) \<or> z_score_of d r n = PosInf"
    by blast
  have num: "read_decimal (format_2f (z_score_of d r n)) =
              real_of_int (round_half_even (x * 100)) / 100 \<and>
            \<bar>read_decimal (format_2f (z_score_of d r n)) - x\<bar> \<le> 1 / 200 \<and>
            length (dropWhile (\<lambda>c. c \<noteq> CHR ''.'') (format_2f (z_score_of d r n))) = 3"
    if x: "z_score_of d r n = Finite x" for x
  proof -
    have "0 \<le> x" using shape x by auto
    then show ?thesis
      unfolding x format_2f.simps
      using read_decimal_format_2f_real [of x] read_decimal_format_close [of x]
        format_2f_real_two_decimals [of x]
      by simp
  qed
  have inf: "format_2f (z_score_of d r n) = ''inf''" if "z_score_of d r n = PosInf"
    using that by simp
  show ?thesis
    using d' one b(2-8) [unfolded ab] shape num inf by blast
qed

theorem anomaly_record_copies_reading_witness:
  "detect_anomaly_zscore db_B (temp 6 30) 50 (Finite (5 / 2)) =
     (db_B\<lparr>anomalies := [anomaly_B]\<rparr>, Inr (Some anomaly_B)) \<and>
   fetch_window db_B (temp 6 30) 50 = map Finite [10, 11, 9, 10, 10] \<and>
   z_score_of db_B (temp 6 30) 50 = Finite (dbl 8901020307485223 (- 48)) \<and>
   3162 / 100 \<le> dbl 8901020307485223 (- 48) \<and> dbl 8901020307485223 (- 48) < 3163 / 100 \<and>
   a_anomaly_type anomaly_B = Some ''High Z-score (31.62)'' \<and>
   read_decimal ''31.62'' = 3162 / 100 \<and>
   a_threshold_used anomaly_B = Some (Finite (5 / 2)) \<and>
   a_telemetry_id anomaly_B = t_id (temp 6 30)"
proof -
  have nz: "\<not> pf_eq (np_std (fetch_window db_B (temp 6 30) 50)) (Finite 0)"
    by (simp add: np_std_B dbl_eq_0_iff)
  from detect_fresh [OF length_B nz score_B_above fresh_B] obtain a where
    det: "detect_anomaly_zscore db_B (temp 6 30) 50 (Finite (5 / 2)) =
        (db_B\<lparr>anomalies := anomalies db_B @ [a]\<rparr>, Inr (Some a))"
    and aid: "a_id a = next_id (map a_id (anomalies db_B))"
    by blast
  note f = anomaly_record_copies_reading [OF det, unfolded z_score_B format_score_B]
  have "a = anomaly_B"
    by (rule Anomaly.equality)
       (simp_all add: f aid anomaly_B_def reading_of_def db_B_def next_id_def)
  with det have "detect_anomaly_zscore db_B (temp 6 30) 50 (Finite (5 / 2)) =
     (db_B\<lparr>anomalies := [anomaly_B]\<rparr>, Inr (Some anomaly_B))"
    by (simp add: db_B_def)
  moreover have "read_decimal ''31.62'' = 3162 / 100"
    using f round_score_B_plain by simp
  moreover have "fetch_window db_B (temp 6 30) 50 = map Finite [10, 11, 9, 10, 10]"
    by (simp add: window_B)
  moreover have "a_anomaly_type anomaly_B = Some ''High Z-score (31.62)''"
    "a_threshold_used anomaly_B = Some (Finite (5 / 2))"
    "a_telemetry_id anomaly_B = t_id (temp 6 30)"
    by (simp_all add: anomaly_B_def reading_of_def)
  ultimately show ?thesis
    using z_score_B score_B_bounds by blast
qed

subsection \<open>Silence and the stored reading\<close>

lemma detect_telemetry_data:
  "telemetry_data (fst (detect_anomaly_zscore d r n thr)) = telemetry_data d"
  by (simp add: detect_anomaly_zscore_def create_anomaly_def Let_def)

lemma detect_error_unchanged:
  "snd (detect_anomaly_zscore d r n thr) = Inl e \<Longrightarrow> fst (detect_anomaly_zscore d r n thr) = d"
  by (simp add: detect_anomaly_zscore_def create_anomaly_def Let_def split: if_splits)

text \<open>
  C9. A run of the detector that meets one of the three no-verdict conditions (fewer
  than five values, zero deviation, score not above the threshold) returns \<open>None\<close>
  without an error and returns the database unchanged, both tables. In every outcome
  the table of readings is what it was; when recording the anomaly fails, with the
  integrity error, the whole database is what it was, so the stored reading remains.
\<close>

theorem no_verdict_silent_reading_kept:
  "(length (fetch_window d r n) < 5 \<or> pf_eq (np_std (fetch_window d r n)) (Finite 0) \<or>
      \<not> pf_gt (z_score_of d r n) thr \<longrightarrow>
      detect_anomaly_zscore d r n thr = (d, Inr None)) \<and>
   (snd (detect_anomaly_zscore d r n thr) = Inr None \<longrightarrow>
      fst (detect_anomaly_zscore d r n thr) = d) \<and>
   telemetry_data (fst (detect_anomaly_zscore d r n thr)) = telemetry_data d \<and>
   (snd (detect_anomaly_zscore d r n thr) = Inl e \<longrightarrow>
      e = IntegrityError \<and> fst (detect_anomaly_zscore d r n thr) = d)"
proof (intro conjI impI)
  assume "length (fetch_window d r n) < 5 \<or> pf_eq (np_std (fetch_window d r n)) (Finite 0) \<or>
      \<not> pf_gt (z_score_of d r n) thr"
  then show "detect_anomaly_zscore d r n thr = (d, Inr None)"
    by (rule detect_no_verdict)
next
  assume "snd (detect_anomaly_zscore d r n thr) = Inr None"
  from detect_no_verdict [OF detect_NoneD [OF this]]
  show "fst (detect_anomaly_zscore d r n thr) = d" by simp
next
  show "telemetry_data (fst (detect_anomaly_zscore d r n thr)) = telemetry_data d"
    by (rule detect_telemetry_data)
next
  assume "snd (detect_anomaly_zscore d r n thr) = Inl e"
  then show "e = IntegrityError"
    by (simp add: detect_anomaly_zscore_def create_anomaly_def Let_def split: if_splits)
next
  assume "snd (detect_anomaly_zscore d r n thr) = Inl e"
  then show "fst (detect_anomaly_zscore d r n thr) = d"
    by (rule detect_error_unchanged)
qed

theorem no_verdict_silent_reading_kept_witness:
  "\<not> pf_gt (z_score_of db_D (temp 6 103) 50) (Finite (5 / 2)) \<and>
   detect_anomaly_zscore db_D (temp 6 103) 50 (Finite (5 / 2)) = (db_D, Inr None) \<and>
   snd (detect_anomaly_zscore db_E_flagged (temp 7 30) 50 (Finite (5 / 2))) = Inl IntegrityError \<and>
   fst (detect_anomaly_zscore db_E_flagged (temp 7 30) 50 (Finite (5 / 2))) = db_E_flagged \<and>
   temp 7 30 \<in> set (telemetry_data (fst (detect_anomaly_zscore db_E_flagged (temp 7 30) 50 (Finite (5 / 2)))))"
proof -
  have "detect_anomaly_zscore db_D (temp 6 103) 50 (Finite (5 / 2)) = (db_D, Inr None)"
    using no_verdict_silent_reading_kept [of db_D "temp 6 103" 50 "Finite (5 / 2)"] score_D_below
    by blast
  moreover have err: "snd (detect_anomaly_zscore db_E_flagged (temp 7 30) 50 (Finite (5 / 2))) = Inl IntegrityError"
    by (simp add: detect_E_flagged)
  moreover have "fst (detect_anomaly_zscore db_E_flagged (temp 7 30) 50 (Finite (5 / 2))) = db_E_flagged"
    using no_verdict_silent_reading_kept [of db_E_flagged "temp 7 30" 50 "Finite (5 / 2)" IntegrityError] err
    by blast
  moreover have "temp 7 30 \<in> set (telemetry_data db_E_flagged)"
    by (simp add: db_E_flagged_def db_E_def)
  ultimately show ?thesis
    using score_D_below by simp
qed

subsection \<open>At most one anomaly per reading\<close>

lemma post_telemetry_anomalies: "anomalies (fst (post_telemetry now d p)) = anomalies d"
  by (simp add: post_telemetry_def main_create_telemetry_data_def create_telemetry_data_def
      Let_def split: sum.splits)

lemma detect_anomalies_cases:
  "anomalies (fst (detect_anomaly_zscore d r n thr)) = anomalies d \<or>
   (t_id r \<notin> a_telemetry_id ` set (anomalies d) \<and>
    (\<exists>a. a_telemetry_id a = t_id r \<and>
         anomalies (fst (detect_anomaly_zscore d r n thr)) = anomalies d @ [a]))"
proof (cases "length (fetch_window d r n) < 5 \<or> pf_eq (np_std (fetch_window d r n)) (Finite 0) \<or>
     \<not> pf_gt (z_score_of d r n) thr")
  case True
  then show ?thesis by (simp add: detect_no_verdict)
next
  case nv: False
  show ?thesis
  proof (cases "t_id r \<in> a_telemetry_id ` set (anomalies d)")
    case True
    with nv have "detect_anomaly_zscore d r n thr = (d, Inl IntegrityError)"
      by (intro detect_duplicate) auto
    then show ?thesis by simp
  next
    case False
    with nv obtain a where
      "detect_anomaly_zscore d r n thr = (d\<lparr>anomalies := anomalies d @ [a]\<rparr>, Inr (Some a))"
      "a_telemetry_id a = t_id r"
      using detect_fresh [of d r n thr] by auto
    with False show ?thesis by auto
  qed
qed

lemma detect_keeps_distinct:
  assumes "distinct (map a_telemetry_id (anomalies d))"
  shows "distinct (map a_telemetry_id (anomalies (fst (detect_anomaly_zscore d r n thr))))"
  using detect_anomalies_cases [of d r n thr] assms by auto

lemma reachable_distinct:
  "reachable d \<Longrightarrow> distinct (map a_telemetry_id (anomalies d))"
proof (induction rule: reachable.induct)
  case init
  show ?case by (simp add: empty_db_def)
next
  case (ingest d now p)
  then show ?case by (simp add: post_telemetry_anomalies)
next
  case (detect d r n thr)
  from detect.IH show ?case by (rule detect_keeps_distinct)
qed

lemma distinct_map_filter_le_1:
  "distinct (map f xs) \<Longrightarrow> length (filter (\<lambda>x. f x = i) xs) \<le> 1"
proof (induction xs)
  case Nil
  show ?case by simp
next
  case (Cons x xs)
  show ?case
  proof (cases "f x = i")
    case True
    with Cons.prems have "filter (\<lambda>x. f x = i) xs = []"
      by (force simp add: filter_empty_conv image_iff)
    with True show ?thesis by simp
  next
    case False
    with Cons show ?thesis by simp
  qed
qed

lemma detect_retry_rejected:
  assumes "detect_anomaly_zscore d r n thr = (d1, Inr (Some a))"
  shows "detect_anomaly_zscore d1 r n thr = (d1, Inl IntegrityError)"
proof -
  note c = detect_SomeD [OF assms]
  from detect_fresh [of d r n thr] c obtain b where
    b: "detect_anomaly_zscore d r n thr = (d\<lparr>anomalies := anomalies d @ [b]\<rparr>, Inr (Some b))"
      "a_telemetry_id b = t_id r"
    by blast
  have d1: "d1 = d\<lparr>anomalies := anomalies d @ [b]\<rparr>"
    using b(1) assms by simp
  show ?thesis
  proof (rule detect_duplicate)
    show "5 \<le> length (fetch_window d1 r n)"
      unfolding d1 fetch_window_anomalies_update using c by blast
    show "\<not> pf_eq (np_std (fetch_window d1 r n)) (Finite 0)"
      unfolding d1 fetch_window_anomalies_update using c by blast
    show "pf_gt (z_score_of d1 r n) thr"
      unfolding d1 z_score_of_anomalies_update using c by blast
    show "t_id r \<in> a_telemetry_id ` set (anomalies d1)"
      using b(2) by (simp add: d1)
  qed
qed

lemma ingest_temp:
  assumes "reachable \<lparr>telemetry_data = rows, anomalies = as\<rparr>"
    and "next_id (map t_id rows) = k"
  shows "reachable \<lparr>telemetry_data = rows @ [temp k v], anomalies = as\<rparr>"
proof -
  have "fst (post_telemetry 0 \<lparr>telemetry_data = rows, anomalies = as\<rparr> (payload_of k (Finite v)))
      = \<lparr>telemetry_data = rows @ [temp k v], anomalies = as\<rparr>"
    using assms(2)
    by (simp add: post_telemetry_def validate_TelemetryDataCreate_def payload_of_def
        main_create_telemetry_data_def create_telemetry_data_def reading_of_def Let_def)
  with reachable.ingest [OF assms(1), of 0 "payload_of k (Finite v)"] show ?thesis
    by simp
qed

lemma reachable_db_E: "reachable db_E"
proof -
  have "reachable \<lparr>telemetry_data = [], anomalies = []\<rparr>"
    using reachable.init by (simp add: empty_db_def)
  from ingest_temp [OF this, of 1 12]
  have "reachable \<lparr>telemetry_data = [temp 1 12], anomalies = []\<rparr>"
    by (simp add: next_id_def)
  from ingest_temp [OF this, of 2 8]
  have "reachable \<lparr>telemetry_data = [temp 1 12, temp 2 8], anomalies = []\<rparr>"
    by (simp add: next_id_def reading_of_def)
  from ingest_temp [OF this, of 3 12]
  have "reachable \<lparr>telemetry_data = [temp 1 12, temp 2 8, temp 3 12], anomalies = []\<rparr>"
    by (simp add: next_id_def reading_of_def)
  from ingest_temp [OF this, of 4 8]
  have "reachable \<lparr>telemetry_data = [temp 1 12, temp 2 8, temp 3 12, temp 4 8], anomalies = []\<rparr>"
    by (simp add: next_id_def reading_of_def)
  from ingest_temp [OF this, of 5 12]
  have "reachable \<lparr>telemetry_data = [temp 1 12, temp 2 8, temp 3 12, temp 4 8, temp 5 12],
      anomalies = []\<rparr>"
    by (simp add: next_id_def reading_of_def)
  from ingest_temp [OF this, of 6 8]
  have "reachable \<lparr>telemetry_data = [temp 1 12, temp 2 8, temp 3 12, temp 4 8, temp 5 12, temp 6 8],
      anomalies = []\<rparr>"
    by (simp add: next_id_def reading_of_def)
  from ingest_temp [OF this, of 7 30]
  show ?thesis
    by (simp add: next_id_def reading_of_def db_E_def)
qed

lemma reachable_db_E_flagged: "reachable db_E_flagged"
  using reachable.detect [OF reachable_db_E, of "temp 7 30" 50 "Finite (5 / 2)"]
  by (simp add: detect_E)

text \<open>
  C5. In every reachable database the \<^verbatim>\<open>telemetry_id\<close>s of the anomaly rows are
  pairwise distinct, so each reading id has at most one anomaly row. A second run of the
  detector on a reading it has just flagged, over the same window and threshold, is
  rejected with the integrity error and writes nothing; after any two runs on the same
  reading there is still at most one anomaly row for it.
\<close>

theorem at_most_one_anomaly_per_reading:
  assumes "reachable d"
  shows "distinct (map a_telemetry_id (anomalies d)) \<and>
         length (filter (\<lambda>a. a_telemetry_id a = i) (anomalies d)) \<le> 1 \<and>
         (detect_anomaly_zscore d r n thr = (d1, Inr (Some a)) \<longrightarrow>
            detect_anomaly_zscore d1 r n thr = (d1, Inl IntegrityError)) \<and>
         length (filter (\<lambda>a. a_telemetry_id a = t_id r)
           (anomalies (fst (detect_anomaly_zscore (fst (detect_anomaly_zscore d r n thr)) r n thr'))))
           \<le> 1"
proof -
  have dist: "distinct (map a_telemetry_id (anomalies d))"
    using assms by (rule reachable_distinct)
  have "reachable (fst (detect_anomaly_zscore (fst (detect_anomaly_zscore d r n thr)) r n thr'))"
    using assms by (intro reachable.detect)
  then have "distinct (map a_telemetry_id
      (anomalies (fst (detect_anomaly_zscore (fst (detect_anomaly_zscore d r n thr)) r n thr'))))"
    by (rule reachable_distinct)
  then have "length (filter (\<lambda>a. a_telemetry_id a = t_id r)
           (anomalies (fst (detect_anomaly_zscore (fst (detect_anomaly_zscore d r n thr)) r n thr'))))
           \<le> 1"
    by (rule distinct_map_filter_le_1)
  moreover have "length (filter (\<lambda>a. a_telemetry_id a = i) (anomalies d)) \<le> 1"
    using dist by (rule distinct_map_filter_le_1)
  ultimately show ?thesis
    using dist detect_retry_rejected [of d r n thr d1 a] by blast
qed

theorem at_most_one_anomaly_per_reading_witness:
  "reachable db_E_flagged \<and>
   map a_telemetry_id (anomalies db_E_flagged) = [7] \<and>
   distinct (map a_telemetry_id (anomalies db_E_flagged)) \<and>
   detect_anomaly_zscore db_E (temp 7 30) 50 (Finite (5 / 2)) = (db_E_flagged, Inr (Some anomaly_E)) \<and>
   detect_anomaly_zscore db_E_flagged (temp 7 30) 50 (Finite (5 / 2)) =
     (db_E_flagged, Inl IntegrityError) \<and>
   anomalies (fst (detect_anomaly_zscore db_E_flagged (temp 7 30) 50 (Finite (5 / 2)))) = [anomaly_E]"
proof -
  have ids: "map a_telemetry_id (anomalies db_E_flagged) = [7]"
    by (simp add: db_E_flagged_def anomaly_E_def)
  have "distinct (map a_telemetry_id (anomalies db_E_flagged))"
    using at_most_one_anomaly_per_reading [OF reachable_db_E_flagged] by blast
  moreover have "detect_anomaly_zscore db_E_flagged (temp 7 30) 50 (Finite (5 / 2)) =
     (db_E_flagged, Inl IntegrityError)"
    using at_most_one_anomaly_per_reading [OF reachable_db_E,
        of _ "temp 7 30" 50 "Finite (5 / 2)" db_E_flagged anomaly_E] detect_E
    by blast
  moreover from this
  have "anomalies (fst (detect_anomaly_zscore db_E_flagged (temp 7 30) 50 (Finite (5 / 2)))) = [anomaly_E]"
    by (simp add: db_E_flagged_def)
  ultimately show ?thesis
    using reachable_db_E_flagged ids detect_E by blast
qed

subsection \<open>The window\<close>

lemma sort_key_desc_sorted:
  "sorted_wrt (\<lambda>x y. t_timestamp y \<le> t_timestamp x) (sort_key (\<lambda>r. - t_timestamp r) xs)"
proof -
  have "sorted (map (\<lambda>r. - t_timestamp r) (sort_key (\<lambda>r. - t_timestamp r) xs))"
    by (rule sorted_sort_key)
  then show ?thesis
    by (simp add: sorted_map)
qed

lemma take_drop_sorted_wrt:
  assumes "sorted_wrt P xs"
  shows "\<forall>y\<in>set (drop n xs). \<forall>x\<in>set (take n xs). P x y"
proof -
  from assms have "sorted_wrt P (take n xs @ drop n xs)" by simp
  then show ?thesis
    unfolding sorted_wrt_append by blast
qed

lemma mset_minus_take: "mset xs - mset (take n xs) = mset (drop n xs)"
proof -
  have "mset xs = mset (take n xs) + mset (drop n xs)"
    by (metis append_take_drop_id mset_append)
  then show ?thesis by simp
qed

text \<open>
  C6. The fetched window is the list of metric values of the rows the query returns.
  Every such row is a stored reading of the same device and the same metric whose id is
  not the excluded one; the rows are ordered by timestamp, most recent first; there are
  at most \<open>window_size\<close> of them, exactly the smaller of \<open>window_size\<close> and the
  number of matching readings; they are matching readings counted with multiplicity,
  all of them when no more than \<open>window_size\<close> exist; and every matching reading
  left out is no more recent than any reading kept.
\<close>

theorem fetched_window_contract:
  fixes d :: db and r :: TelemetryData and n :: nat
  defines "cand \<equiv> filter (\<lambda>x. t_device_id x = t_device_id r \<and>
                               t_metric_name x = t_metric_name r \<and>
                               t_id x \<noteq> t_id r) (telemetry_data d)"
  shows "fetch_window d r n = map t_metric_value (recent_data d r n) \<and>
         (\<forall>x\<in>set (recent_data d r n).
            x \<in> set (telemetry_data d) \<and> t_device_id x = t_device_id r \<and>
            t_metric_name x = t_metric_name r \<and> t_id x \<noteq> t_id r) \<and>
         sorted_wrt (\<lambda>x y. t_timestamp y \<le> t_timestamp x) (recent_data d r n) \<and>
         length (fetch_window d r n) \<le> n \<and>
         length (fetch_window d r n) = min n (length cand) \<and>
         mset (recent_data d r n) \<subseteq># mset cand \<and>
         (length cand \<le> n \<longrightarrow> mset (recent_data d r n) = mset cand) \<and>
         (\<forall>y\<in>#mset cand - mset (recent_data d r n).
            \<forall>x\<in>set (recent_data d r n). t_timestamp y \<le> t_timestamp x)"
proof -
  let ?s = "sort_key (\<lambda>r. - t_timestamp r) cand"
  have rd: "recent_data d r n = take n ?s"
    by (simp add: recent_data_def cand_def)
  have ms: "mset ?s = mset cand" by simp
  have srt: "sorted_wrt (\<lambda>x y. t_timestamp y \<le> t_timestamp x) ?s"
    by (rule sort_key_desc_sorted)
  have sub: "set (take n ?s) \<subseteq> set cand"
    using set_take_subset [of n ?s] by simp
  have p2: "\<forall>x\<in>set (recent_data d r n).
            x \<in> set (telemetry_data d) \<and> t_device_id x = t_device_id r \<and>
            t_metric_name x = t_metric_name r \<and> t_id x \<noteq> t_id r"
    using sub unfolding rd cand_def by auto
  have p3: "sorted_wrt (\<lambda>x y. t_timestamp y \<le> t_timestamp x) (recent_data d r n)"
    unfolding rd using srt by (rule sorted_wrt_take)
  have p5: "length (fetch_window d r n) = min n (length cand)"
    by (simp add: fetch_window_def rd min.commute)
  have p6: "mset (recent_data d r n) \<subseteq># mset cand"
  proof -
    have "mset (take n ?s) \<subseteq># mset (take n ?s) + mset (drop n ?s)" by simp
    also have "\<dots> = mset ?s" by (metis append_take_drop_id mset_append)
    finally show ?thesis by (simp add: rd)
  qed
  have p7: "mset (recent_data d r n) = mset cand" if "length cand \<le> n"
    using that by (simp add: rd)
  have diff: "mset cand - mset (take n ?s) = mset (drop n ?s)"
    using mset_minus_take [of ?s n] by simp
  have p8: "\<forall>y\<in>#mset cand - mset (recent_data d r n).
            \<forall>x\<in>set (recent_data d r n). t_timestamp y \<le> t_timestamp x"
    unfolding rd diff using take_drop_sorted_wrt [OF srt, of n] by simp
  show ?thesis
    using p2 p3 p5 p6 p7 p8 by (simp add: fetch_window_def)
qed

theorem fetched_window_contract_witness:
  "fetch_window db_M (reading_of ''sensor-001'' ''temperature'' 7 50 25) 3 =
     [Finite 22, Finite 23, Finite 20] \<and>
   length (fetch_window db_M (reading_of ''sensor-001'' ''temperature'' 7 50 25) 3) = min 3 4 \<and>
   fetch_window db_M (reading_of ''sensor-001'' ''temperature'' 7 50 25) 50 =
     [Finite 22, Finite 23, Finite 20, Finite 24] \<and>
   length (fetch_window db_M (reading_of ''sensor-001'' ''temperature'' 7 50 25) 50) = min 50 4 \<and>
   fetch_window db_M (reading_of ''sensor-009'' ''temperature'' 8 60 25) 50 = []"
proof -
  let ?r = "reading_of ''sensor-001'' ''temperature'' 7 50 25"
  have cand: "length (filter (\<lambda>x. t_device_id x = t_device_id ?r \<and>
                               t_metric_name x = t_metric_name ?r \<and>
                               t_id x \<noteq> t_id ?r) (telemetry_data db_M)) = 4"
    by (simp add: db_M_def reading_of_def)
  note len = conjunct2 [THEN conjunct2, THEN conjunct2, THEN conjunct2, THEN conjunct1]
  have "length (fetch_window db_M ?r 3) = min 3 4"
    using fetched_window_contract [of db_M ?r 3, THEN len] by (simp only: cand)
  moreover have "length (fetch_window db_M ?r 50) = min 50 4"
    using fetched_window_contract [of db_M ?r 50, THEN len] by (simp only: cand)
  moreover have "fetch_window db_M ?r 3 = [Finite 22, Finite 23, Finite 20]"
    by (simp add: fetch_window_def recent_data_def db_M_def reading_of_def)
  moreover have "fetch_window db_M ?r 50 = [Finite 22, Finite 23, Finite 20, Finite 24]"
    by (simp add: fetch_window_def recent_data_def db_M_def reading_of_def)
  moreover have "fetch_window db_M (reading_of ''sensor-009'' ''temperature'' 8 60 25) 50 = []"
    by (simp add: fetch_window_def recent_data_def db_M_def reading_of_def)
  ultimately show ?thesis by blast
qed

subsection \<open>Validation and ingestion\<close>

lemma post_telemetry_valid:
  assumes "p_device_id p \<noteq> []" "p_metric_name p \<noteq> []"
  shows "\<exists>row. post_telemetry now d p = (d\<lparr>telemetry_data := telemetry_data d @ [row]\<rparr>, Inr row) \<and>
               t_id row = next_id (map t_id (telemetry_data d)) \<and>
               t_device_id row = p_device_id p \<and>
               t_metric_name row = p_metric_name p \<and>
               t_metric_value row = p_metric_value p \<and>
               t_unit row = p_unit p"
  using assms
  by (simp add: post_telemetry_def validate_TelemetryDataCreate_def main_create_telemetry_data_def
      create_telemetry_data_def Let_def)

lemma post_telemetry_invalid:
  "p_device_id p = [] \<or> p_metric_name p = [] \<Longrightarrow> post_telemetry now d p = (d, Inl ValidationError)"
  by (auto simp add: post_telemetry_def validate_TelemetryDataCreate_def)

text \<open>
  C7 (amended). A body whose \<^verbatim>\<open>device_id\<close> or \<^verbatim>\<open>metric_name\<close> is empty fails
  validation: the request ends in a validation error and the database is unchanged, so
  no reading row is created. A body with both fields non-empty passes validation
  whatever its \<^verbatim>\<open>metric_value\<close>, and a row carrying that value is appended. The
  claim as written fails on a non-finite value: \<^verbatim>\<open>metric_value: float\<close> has no
  constraint, so \<open>inf\<close> and \<open>nan\<close> are accepted and stored.
\<close>

theorem empty_identifier_rejected:
  "(p_device_id p = [] \<or> p_metric_name p = [] \<longrightarrow>
      validate_TelemetryDataCreate now p = Inl ValidationError \<and>
      post_telemetry now d p = (d, Inl ValidationError)) \<and>
   (p_device_id p \<noteq> [] \<and> p_metric_name p \<noteq> [] \<longrightarrow>
      (\<exists>row. post_telemetry now d p = (d\<lparr>telemetry_data := telemetry_data d @ [row]\<rparr>, Inr row) \<and>
             t_metric_value row = p_metric_value p))"
proof (intro conjI impI)
  assume e: "p_device_id p = [] \<or> p_metric_name p = []"
  then show "validate_TelemetryDataCreate now p = Inl ValidationError"
    by (auto simp add: validate_TelemetryDataCreate_def)
  from e show "post_telemetry now d p = (d, Inl ValidationError)"
    by (rule post_telemetry_invalid)
next
  assume "p_device_id p \<noteq> [] \<and> p_metric_name p \<noteq> []"
  then show "\<exists>row. post_telemetry now d p = (d\<lparr>telemetry_data := telemetry_data d @ [row]\<rparr>, Inr row) \<and>
             t_metric_value row = p_metric_value p"
    using post_telemetry_valid [of p now d] by blast
qed

theorem empty_identifier_rejected_witness:
  "p_device_id ((payload_of 7 (Finite 10))\<lparr>p_device_id := []\<rparr>) = [] \<and>
   post_telemetry 0 db_A ((payload_of 7 (Finite 10))\<lparr>p_device_id := []\<rparr>) = (db_A, Inl ValidationError) \<and>
   post_telemetry 0 db_A ((payload_of 7 (Finite 10))\<lparr>p_metric_name := []\<rparr>) = (db_A, Inl ValidationError)"
proof -
  have "p_device_id ((payload_of 7 (Finite 10))\<lparr>p_device_id := []\<rparr>) = []" by simp
  moreover have "p_metric_name ((payload_of 7 (Finite 10))\<lparr>p_metric_name := []\<rparr>) = []" by simp
  ultimately show ?thesis
    using empty_identifier_rejected [of "(payload_of 7 (Finite 10))\<lparr>p_device_id := []\<rparr>" 0 db_A]
      empty_identifier_rejected [of "(payload_of 7 (Finite 10))\<lparr>p_metric_name := []\<rparr>" 0 db_A]
    by blast
qed

theorem nonfinite_reading_stored_counterexample:
  "validate_TelemetryDataCreate 0 (payload_of 1 PosInf) =
     Inr \<lparr>c_timestamp = 1, c_device_id = ''sensor-001'', c_metric_name = ''temperature'',
          c_metric_value = PosInf, c_unit = None\<rparr> \<and>
   validate_TelemetryDataCreate 0 (payload_of 1 NaN) =
     Inr \<lparr>c_timestamp = 1, c_device_id = ''sensor-001'', c_metric_name = ''temperature'',
          c_metric_value = NaN, c_unit = None\<rparr> \<and>
   telemetry_data (fst (post_telemetry 0 empty_db (payload_of 1 PosInf))) =
     [\<lparr>t_id = 1, t_timestamp = 1, t_device_id = ''sensor-001'', t_metric_name = ''temperature'',
       t_metric_value = PosInf, t_unit = None\<rparr>] \<and>
   snd (post_telemetry 0 empty_db (payload_of 1 PosInf)) \<noteq> Inl ValidationError"
  by (simp add: post_telemetry_def validate_TelemetryDataCreate_def main_create_telemetry_data_def
      create_telemetry_data_def payload_of_def empty_db_def next_id_def Let_def)

lemma detect_is_spec_detect: "detect_anomaly_zscore d r n thr = spec_detect d r n thr"
  by (simp add: detect_anomaly_zscore_def spec_detect_def anomaly_scorer_def anomaly_recorder_def
      Let_def)

lemma post_B: "post_telemetry 0 db_B_before (payload_of 6 (Finite 30)) = (db_B, Inr (temp 6 30))"
  by (simp add: post_telemetry_def validate_TelemetryDataCreate_def main_create_telemetry_data_def
      create_telemetry_data_def payload_of_def db_B_before_def db_B_def reading_of_def next_id_def
      Let_def)

lemma detect_B:
  "detect_anomaly_zscore db_B (temp 6 30) 50 (Finite (5 / 2)) =
     (db_B\<lparr>anomalies := [anomaly_B]\<rparr>, Inr (Some anomaly_B))"
proof -
  have nz: "\<not> pf_eq (np_std (fetch_window db_B (temp 6 30) 50)) (Finite 0)"
    by (simp add: np_std_B dbl_eq_0_iff)
  from detect_fresh [OF length_B nz score_B_above fresh_B] obtain a where
    a: "detect_anomaly_zscore db_B (temp 6 30) 50 (Finite (5 / 2)) =
        (db_B\<lparr>anomalies := anomalies db_B @ [a]\<rparr>, Inr (Some a))"
      "a_telemetry_id a = t_id (temp 6 30)" "a_device_id a = t_device_id (temp 6 30)"
      "a_metric_name a = t_metric_name (temp 6 30)" "a_metric_value a = t_metric_value (temp 6 30)"
      "a_timestamp a = t_timestamp (temp 6 30)"
      "a_anomaly_type a = Some (''High Z-score ('' @ format_2f (z_score_of db_B (temp 6 30) 50) @ '')'')"
      "a_threshold_used a = Some (Finite (5 / 2))"
      "a_id a = next_id (map a_id (anomalies db_B))"
    by blast
  note fields = a(2-9) [unfolded z_score_B format_score_B]
  have "a = anomaly_B"
    by (rule Anomaly.equality)
       (simp_all add: fields anomaly_B_def reading_of_def db_B_def next_id_def)
  with a(1) show ?thesis
    by (simp add: db_B_def)
qed

lemma spec_ingest_B:
  "spec_ingest 0 db_B_before (payload_of 6 (Finite 30)) =
     (db_B\<lparr>anomalies := [anomaly_B]\<rparr>, Inr (temp 6 30))"
proof -
  have v: "validate_TelemetryDataCreate 0 (payload_of 6 (Finite 30)) =
      Inr \<lparr>c_timestamp = 6, c_device_id = ''sensor-001'', c_metric_name = ''temperature'',
           c_metric_value = Finite 30, c_unit = None\<rparr>"
    by (simp add: validate_TelemetryDataCreate_def payload_of_def)
  have c: "create_telemetry_data db_B_before
      \<lparr>c_timestamp = 6, c_device_id = ''sensor-001'', c_metric_name = ''temperature'',
           c_metric_value = Finite 30, c_unit = None\<rparr> = (db_B, temp 6 30)"
    by (simp add: create_telemetry_data_def db_B_before_def db_B_def reading_of_def next_id_def
        Let_def)
  show ?thesis
    by (simp only: spec_ingest_def v sum.case c Let_def prod.case detect_B)
qed

text \<open>
  C1 (amended). The ingestion endpoint validates the body, stores the reading and
  returns the stored row; it does not run the detector, and the anomaly table after
  ingestion is the anomaly table before. The detector, when a caller runs it on a stored
  reading, is the flow of the specification: fetch the window, score, and record an
  anomaly only on a verdict. The claim as written fails: no ingestion path calls
  \<^verbatim>\<open>detect_anomaly_zscore\<close>; in scenario B the endpoint leaves the anomaly table
  empty where store-then-detect records an anomaly.
\<close>

theorem ingestion_stores_without_detection:
  "anomalies (fst (post_telemetry now d p)) = anomalies d \<and>
   post_telemetry now d p =
     (case validate_TelemetryDataCreate now p of
        Inl e \<Rightarrow> (d, Inl e)
      | Inr telemetry \<Rightarrow>
          (fst (create_telemetry_data d telemetry), Inr (snd (create_telemetry_data d telemetry)))) \<and>
   detect_anomaly_zscore d r n thr =
     (case anomaly_scorer (t_metric_value r) (fetch_window d r n) thr of
        None \<Rightarrow> (d, Inr None)
      | Some score \<Rightarrow>
          (case anomaly_recorder d r score thr of
             (d', Inl e) \<Rightarrow> (d', Inl e)
           | (d', Inr a) \<Rightarrow> (d', Inr (Some a))))"
proof -
  have "post_telemetry now d p =
     (case validate_TelemetryDataCreate now p of
        Inl e \<Rightarrow> (d, Inl e)
      | Inr telemetry \<Rightarrow>
          (fst (create_telemetry_data d telemetry), Inr (snd (create_telemetry_data d telemetry))))"
    by (simp add: post_telemetry_def main_create_telemetry_data_def split_beta split: sum.splits)
  moreover have "detect_anomaly_zscore d r n thr =
     (case anomaly_scorer (t_metric_value r) (fetch_window d r n) thr of
        None \<Rightarrow> (d, Inr None)
      | Some score \<Rightarrow>
          (case anomaly_recorder d r score thr of
             (d', Inl e) \<Rightarrow> (d', Inl e)
           | (d', Inr a) \<Rightarrow> (d', Inr (Some a))))"
    using detect_is_spec_detect [of d r n thr] by (simp add: spec_detect_def)
  ultimately show ?thesis
    using post_telemetry_anomalies [of now d p] by simp
qed

theorem ingestion_stores_without_detection_witness:
  "post_telemetry 0 db_B_before (payload_of 6 (Finite 30)) = (db_B, Inr (temp 6 30)) \<and>
   anomalies (fst (post_telemetry 0 db_B_before (payload_of 6 (Finite 30)))) = [] \<and>
   anomaly_scorer (t_metric_value (temp 6 30)) (fetch_window db_B (temp 6 30) 50) (Finite (5 / 2)) =
     Some (Finite (dbl 8901020307485223 (- 48)))"
proof -
  have "anomalies (fst (post_telemetry 0 db_B_before (payload_of 6 (Finite 30)))) =
      anomalies db_B_before"
    by (rule ingestion_stores_without_detection [THEN conjunct1])
  then have "anomalies (fst (post_telemetry 0 db_B_before (payload_of 6 (Finite 30)))) = []"
    by (simp add: db_B_before_def)
  moreover have "anomaly_scorer (t_metric_value (temp 6 30)) (fetch_window db_B (temp 6 30) 50)
      (Finite (5 / 2)) = Some (Finite (dbl 8901020307485223 (- 48)))"
    using length_B np_std_B score_B_above z_score_B
    by (simp add: anomaly_scorer_def z_score_of_def Let_def dbl_eq_0_iff)
  ultimately show ?thesis
    using post_B by blast
qed

theorem ingestion_skips_detection_counterexample:
  "post_telemetry 0 db_B_before (payload_of 6 (Finite 30)) = (db_B, Inr (temp 6 30)) \<and>
   anomalies db_B = [] \<and>
   spec_ingest 0 db_B_before (payload_of 6 (Finite 30)) =
     (db_B\<lparr>anomalies := [anomaly_B]\<rparr>, Inr (temp 6 30)) \<and>
   fst (post_telemetry 0 db_B_before (payload_of 6 (Finite 30))) \<noteq>
     fst (spec_ingest 0 db_B_before (payload_of 6 (Finite 30)))"
proof -
  have "anomalies db_B = []" by (simp add: db_B_def)
  moreover have "fst (post_telemetry 0 db_B_before (payload_of 6 (Finite 30))) \<noteq>
     fst (spec_ingest 0 db_B_before (payload_of 6 (Finite 30)))"
    by (simp add: post_B spec_ingest_B db_B_def)
  ultimately show ?thesis
    using post_B spec_ingest_B by blast
qed

end
